theory Spec2Isabelle
  imports Complex_Main "HOL-Library.Char_ord" "HOL-Library.List_Lexorder" "HOL-Library.Multiset"
begin

section \<open>Strings and paths\<close>

text \<open>
  The orchestrator \<^verbatim>\<open>run_main\<close> of \<^verbatim>\<open>inference_gfpgan.py\<close> builds every path it
  touches with a handful of string operations of the Python standard library. They are
  embedded here with their POSIX behaviour (\<^verbatim>\<open>posixpath\<close>, \<^verbatim>\<open>genericpath\<close>):
  a string is a list of characters and the separator is \<^verbatim>\<open>/\<close>.
\<close>

text \<open>\<^verbatim>\<open>s.endswith(c)\<close> and \<^verbatim>\<open>s.startswith(c)\<close> for a one-character \<open>c\<close>.\<close>

definition endswith :: "string \<Rightarrow> char \<Rightarrow> bool" where
  "endswith s c = (case rev s of [] \<Rightarrow> False | x # _ \<Rightarrow> x = c)"

definition startswith :: "string \<Rightarrow> char \<Rightarrow> bool" where
  "startswith s c = (case s of [] \<Rightarrow> False | x # _ \<Rightarrow> x = c)"

text \<open>
  \<^verbatim>\<open>posixpath.join(a, *p)\<close>: a component that starts with the separator replaces what
  came before; otherwise it is appended, with a separator unless the path so far is empty or
  already ends with one.
\<close>

definition join2 :: "string \<Rightarrow> string \<Rightarrow> string" where
  "join2 path b =
     (if startswith b CHR ''/'' then b
      else if path = [] \<or> endswith path CHR ''/'' then path @ b
      else path @ ''/'' @ b)"

definition os_path_join :: "string \<Rightarrow> string list \<Rightarrow> string" where
  "os_path_join a p = foldl join2 a p"

text \<open>\<^verbatim>\<open>s.rfind(c)\<close>: the index of the last occurrence of \<open>c\<close>, or \<open>-1\<close>.\<close>

definition rfind :: "string \<Rightarrow> char \<Rightarrow> int" where
  "rfind s c =
     (if c \<in> set s then int (length s) - 1 - int (length (takeWhile (\<lambda>x. x \<noteq> c) (rev s)))
      else - 1)"

text \<open>\<^verbatim>\<open>posixpath.basename(p)\<close>: \<^verbatim>\<open>i = p.rfind('/') + 1; return p[i:]\<close>.\<close>

definition os_path_basename :: "string \<Rightarrow> string" where
  "os_path_basename p = drop (nat (rfind p CHR ''/'' + 1)) p"

text \<open>
  \<^verbatim>\<open>posixpath.splitext(p)\<close> (\<^verbatim>\<open>genericpath._splitext\<close>): the extension starts at the
  last dot, provided that dot comes after the last separator and some character between the
  separator and the dot is not itself a dot (leading dots do not start an extension).
\<close>

definition os_path_splitext :: "string \<Rightarrow> string \<times> string" where
  "os_path_splitext p =
     (let sepIndex = rfind p CHR ''/'';
          dotIndex = rfind p CHR ''.''
      in if dotIndex > sepIndex \<and>
            list_ex (\<lambda>c. c \<noteq> CHR ''.'')
              (take (nat (dotIndex - (sepIndex + 1))) (drop (nat (sepIndex + 1)) p))
         then (take (nat dotIndex) p, drop (nat dotIndex) p)
         else (p, []))"

text \<open>
  \<^verbatim>\<open>f'{idx:02d}'\<close>: the decimal digits of a non-negative integer, padded on the left
  with zeros to a width of two; three digits and more are printed in full.
\<close>

fun str_nat :: "nat \<Rightarrow> string" where
  "str_nat n =
     (if n < 10 then [''0123456789'' ! n]
      else str_nat (n div 10) @ [''0123456789'' ! (n mod 10)])"

definition fmt_02d :: "nat \<Rightarrow> string" where
  "fmt_02d n = (let s = str_nat n in replicate (2 - length s) CHR ''0'' @ s)"

section \<open>Data model\<close>

text \<open>
  The \<^verbatim>\<open>args\<close> dictionary of \<^verbatim>\<open>run_main\<close>, one field per key. The suffix is optional
  (\<^verbatim>\<open>None\<close> in Python).
\<close>

record args =
  input :: string
  "output" :: string
  version :: string
  upscale :: int
  bg_upsampler :: string
  bg_tile :: int
  suffix :: "string option"
  only_center_face :: bool
  aligned :: bool
  ext :: string
  weight :: real

text \<open>
  The exceptions the run can end with: the \<^verbatim>\<open>ValueError\<close> of line 92, the
  \<^verbatim>\<open>UnboundLocalError\<close> that Python raises when line 156 reads a local variable that no
  assignment has bound, and whatever an external collaborator raises.
\<close>

datatype py_error = ValueError string | UnboundLocalError string | ExternalError string

text \<open>
  The handles of the two external models are identified with the arguments of their
  constructors: \<^verbatim>\<open>RRDBNet(...)\<close>, \<^verbatim>\<open>RealESRGANer(...)\<close> and \<^verbatim>\<open>GFPGANer(...)\<close>.
\<close>

record rrdbnet =
  num_in_ch :: int
  num_out_ch :: int
  num_feat :: int
  num_block :: int
  num_grow_ch :: int
  net_scale :: int

record upsampler =
  scale :: int
  esr_model_path :: string
  model :: rrdbnet
  tile :: int
  tile_pad :: int
  pre_pad :: int
  half :: bool

record restorer =
  model_path :: string
  gfp_upscale :: int
  arch :: string
  channel_multiplier :: int
  gfp_bg_upsampler :: "upsampler option"

text \<open>
  What the run does to the outside world, in order: every call of an external,
  effectful operation is one event. \<open>Enhance r img has_aligned only_center_face paste_back weight\<close>
  is a call of \<^verbatim>\<open>restorer.enhance\<close> with exactly these arguments; \<open>Imwrite img path\<close> is a
  call of \<^verbatim>\<open>imwrite\<close>. Images are values of an abstract type \<open>'img\<close>.
\<close>

datatype 'img event =
    Makedirs string
  | Warn string
  | LogDebug string
  | NewRealESRGANer upsampler
  | NewGFPGANer restorer
  | Imread string
  | Enhance restorer "'img option" bool bool bool real
  | Imwrite 'img string

text \<open>
  The environment answers every external call. An operation that can raise returns the
  exception (\<open>Some e\<close>, or \<open>Inl e\<close>); \<^verbatim>\<open>cv2.imread\<close> does not raise on an unreadable file
  but returns \<^verbatim>\<open>None\<close>. The answers do not depend on what the run has written before.
\<close>

record 'img env =
  isfile :: "string \<Rightarrow> bool"
  glob :: "string \<Rightarrow> string list"
  makedirs :: "string \<Rightarrow> py_error option"
  cuda_is_available :: bool
  new_RealESRGANer :: "upsampler \<Rightarrow> py_error option"
  new_GFPGANer :: "restorer \<Rightarrow> py_error option"
  imread :: "string \<Rightarrow> 'img option"
  enhance :: "restorer \<Rightarrow> 'img option \<Rightarrow> bool \<Rightarrow> bool \<Rightarrow> bool \<Rightarrow> real
                \<Rightarrow> py_error + ('img list \<times> 'img list \<times> 'img option)"
  concatenate :: "'img \<Rightarrow> 'img \<Rightarrow> py_error + 'img"
  imwrite :: "'img \<Rightarrow> string \<Rightarrow> py_error option"

section \<open>Sequencing of effects\<close>

text \<open>
  A computation yields the events it caused and either an exception or a value. An
  exception ends the computation: nothing after it runs, and the events before it stay.
\<close>

type_synonym ('img, 'a) io = "'img event list \<times> (py_error + 'a)"

definition io_return :: "'a \<Rightarrow> ('img, 'a) io" where
  "io_return x = ([], Inr x)"

definition io_raise :: "py_error \<Rightarrow> ('img, 'a) io" where
  "io_raise e = ([], Inl e)"

definition io_bind :: "('img, 'a) io \<Rightarrow> ('a \<Rightarrow> ('img, 'b) io) \<Rightarrow> ('img, 'b) io" where
  "io_bind m f =
     (case m of
        (t, Inl e) \<Rightarrow> (t, Inl e)
      | (t, Inr x) \<Rightarrow> (case f x of (t', r) \<Rightarrow> (t @ t', r)))"

definition emit :: "'img event \<Rightarrow> ('img, unit) io" where
  "emit ev = ([ev], Inr ())"

text \<open>An external call that may raise: the event, then the environment's answer.\<close>

definition call_val :: "'img event \<Rightarrow> py_error + 'a \<Rightarrow> ('img, 'a) io" where
  "call_val ev r = ([ev], r)"

definition call :: "'img event \<Rightarrow> py_error option \<Rightarrow> ('img, unit) io" where
  "call ev r = call_val ev (case r of None \<Rightarrow> Inr () | Some e \<Rightarrow> Inl e)"

text \<open>A pure step that may raise causes no event.\<close>

definition lift :: "py_error + 'a \<Rightarrow> ('img, 'a) io" where
  "lift r = ([], r)"

section \<open>The orchestrator\<close>

subsection \<open>Input enumeration (lines 34 to 39)\<close>

definition strip_input :: "args \<Rightarrow> args" where
  "strip_input a =
     (if endswith (input a) CHR ''/'' then a\<lparr>input := butlast (input a)\<rparr> else a)"

definition img_list :: "'img env \<Rightarrow> args \<Rightarrow> string list" where
  "img_list E a =
     (if isfile E (input a) then [input a]
      else sort (glob E (os_path_join (input a) [''*''])))"

subsection \<open>Background upsampler (lines 44 to 63)\<close>

definition cpu_warning :: string where
  "cpu_warning =
     ''The unoptimized RealESRGAN is slow on CPU. We do not use it. '' @
     ''If you really want to use it, please modify the corresponding codes.''"

text \<open>The arguments of the two constructor calls of lines 53 to 61, for a given tile size.\<close>

definition realesrgan_x2plus :: "int \<Rightarrow> upsampler" where
  "realesrgan_x2plus t =
     \<lparr>scale = 2,
      esr_model_path =
        ''https://github.com/xinntao/Real-ESRGAN/releases/download/v0.2.1/RealESRGAN_x2plus.pth'',
      model = \<lparr>num_in_ch = 3, num_out_ch = 3, num_feat = 64, num_block = 23,
               num_grow_ch = 32, net_scale = 2\<rparr>,
      tile = t, tile_pad = 10, pre_pad = 0, half = True\<rparr>"

definition setup_bg_upsampler :: "'img env \<Rightarrow> args \<Rightarrow> ('img, upsampler option) io" where
  "setup_bg_upsampler E a =
     (if bg_upsampler a = ''realesrgan'' then
        if \<not> cuda_is_available E then
          io_bind (emit (Warn cpu_warning)) (\<lambda>_. io_return None)
        else
          let u = realesrgan_x2plus (bg_tile a)
          in io_bind (call (NewRealESRGANer u) (new_RealESRGANer E u)) (\<lambda>_. io_return (Some u))
      else io_return None)"

subsection \<open>Model variant and weights (lines 66 to 100)\<close>

text \<open>The dispatch yields \<open>(arch, channel_multiplier, model_name, url)\<close>.\<close>

definition select_variant :: "string \<Rightarrow> py_error + (string \<times> int \<times> string \<times> string)" where
  "select_variant v =
     (if v = ''1'' then
        Inr (''original'', 1, ''GFPGANv1'',
             ''https://github.com/TencentARC/GFPGAN/releases/download/v0.1.0/GFPGANv1.pth'')
      else if v = ''1.2'' then
        Inr (''clean'', 2, ''GFPGANCleanv1-NoCE-C2'',
             ''https://github.com/TencentARC/GFPGAN/releases/download/v0.2.0/GFPGANCleanv1-NoCE-C2.pth'')
      else if v = ''1.3'' then
        Inr (''clean'', 2, ''GFPGANv1.3'',
             ''https://github.com/TencentARC/GFPGAN/releases/download/v1.3.0/GFPGANv1.3.pth'')
      else if v = ''1.4'' then
        Inr (''clean'', 2, ''GFPGANv1.4'',
             ''https://github.com/TencentARC/GFPGAN/releases/download/v1.3.0/GFPGANv1.4.pth'')
      else if v = ''RestoreFormer'' then
        Inr (''RestoreFormer'', 2, ''RestoreFormer'',
             ''https://github.com/TencentARC/GFPGAN/releases/download/v1.3.4/RestoreFormer.pth'')
      else Inl (ValueError ''Wrong model version!''))"

definition determine_model_path :: "'img env \<Rightarrow> string \<Rightarrow> string \<Rightarrow> string" where
  "determine_model_path E model_name url =
     (let p1 = os_path_join ''experiments/pretrained_models'' [model_name @ ''.pth''];
          p2 = (if \<not> isfile E p1 then os_path_join ''gfpgan/weights'' [model_name @ ''.pth'']
                else p1)
      in if \<not> isfile E p2 then url else p2)"

subsection \<open>Saving the faces of one image (lines 126 to 139)\<close>

definition face_name :: "string \<Rightarrow> nat \<Rightarrow> string" where
  "face_name basename idx = basename @ ''_'' @ fmt_02d idx @ ''.png''"

definition save_face_name :: "args \<Rightarrow> string \<Rightarrow> nat \<Rightarrow> string" where
  "save_face_name a basename idx =
     (case suffix a of
        Some s \<Rightarrow> basename @ ''_'' @ fmt_02d idx @ ''_'' @ s @ ''.png''
      | None \<Rightarrow> basename @ ''_'' @ fmt_02d idx @ ''.png'')"

fun save_faces ::
  "'img env \<Rightarrow> args \<Rightarrow> string \<Rightarrow> nat \<Rightarrow> ('img \<times> 'img) list \<Rightarrow> ('img, unit) io" where
  "save_faces E a basename idx [] = io_return ()"
| "save_faces E a basename idx ((cropped_face, restored_face) # faces) =
     (let save_crop_path = os_path_join (output a) [''cropped_faces'', face_name basename idx];
          save_restore_path =
            os_path_join (output a) [''restored_faces'', save_face_name a basename idx];
          cmp_path = os_path_join (output a) [''cmp'', face_name basename idx]
      in io_bind (call (Imwrite cropped_face save_crop_path)
                    (imwrite E cropped_face save_crop_path)) (\<lambda>_.
         io_bind (call (Imwrite restored_face save_restore_path)
                    (imwrite E restored_face save_restore_path)) (\<lambda>_.
         io_bind (lift (concatenate E cropped_face restored_face)) (\<lambda>cmp_img.
         io_bind (call (Imwrite cmp_img cmp_path) (imwrite E cmp_img cmp_path)) (\<lambda>_.
         save_faces E a basename (Suc idx) faces)))))"

subsection \<open>Saving the restored image (lines 142 to 153)\<close>

definition restored_img_path :: "args \<Rightarrow> string \<Rightarrow> string \<Rightarrow> string" where
  "restored_img_path a basename ext_src =
     (let extension = (if ext a = ''auto'' then drop 1 ext_src else ext a)
      in case suffix a of
           Some s \<Rightarrow>
             os_path_join (output a) [''restored_imgs'', basename @ ''_'' @ s @ ''.'' @ extension]
         | None \<Rightarrow> os_path_join (output a) [''restored_imgs'', basename @ ''.'' @ extension])"

definition save_restored_img ::
  "'img env \<Rightarrow> args \<Rightarrow> string \<Rightarrow> string \<Rightarrow> 'img option \<Rightarrow> ('img, unit) io" where
  "save_restored_img E a basename ext_src restored_img =
     (case restored_img of
        None \<Rightarrow> io_return ()
      | Some img \<Rightarrow>
          (let save_restore_path = restored_img_path a basename ext_src
           in call (Imwrite img save_restore_path) (imwrite E img save_restore_path)))"

subsection \<open>One pass of the restore loop (lines 111 to 153)\<close>

text \<open>The pass yields \<open>img_name\<close>, which the loop leaves bound for line 156.\<close>

definition process_image :: "'img env \<Rightarrow> args \<Rightarrow> restorer \<Rightarrow> string \<Rightarrow> ('img, string) io" where
  "process_image E a r img_path =
     (let img_name = os_path_basename img_path;
          (basename, ext_src) = os_path_splitext img_name
      in io_bind (emit (LogDebug (''Processing '' @ img_name @ '' ...''))) (\<lambda>_.
         io_bind (call_val (Imread img_path) (Inr (imread E img_path))) (\<lambda>input_img.
         io_bind (call_val (Enhance r input_img (aligned a) (only_center_face a) True (weight a))
                    (enhance E r input_img (aligned a) (only_center_face a) True (weight a)))
           (\<lambda>(cropped_faces, restored_faces, restored_img).
         io_bind (save_faces E a basename 0 (zip cropped_faces restored_faces)) (\<lambda>_.
         io_bind (save_restored_img E a basename ext_src restored_img) (\<lambda>_.
         io_return img_name))))))"

text \<open>
  The \<^verbatim>\<open>for\<close> loop of line 110. The third argument is the loop's view of the local
  variable \<^verbatim>\<open>img_name\<close>: \<open>None\<close> as long as no pass has bound it.
\<close>

fun restore_loop ::
  "'img env \<Rightarrow> args \<Rightarrow> restorer \<Rightarrow> string option \<Rightarrow> string list \<Rightarrow> ('img, string option) io" where
  "restore_loop E a r img_name [] = io_return img_name"
| "restore_loop E a r img_name (img_path # rest) =
     io_bind (process_image E a r img_path) (\<lambda>n. restore_loop E a r (Some n) rest)"

subsection \<open>The whole run\<close>

text \<open>
  \<open>run_args\<close> is the body of \<^verbatim>\<open>run_main\<close> from line 34 on, for any contents of the
  \<^verbatim>\<open>args\<close> dictionary; \<open>run_main\<close> supplies the dictionary of lines 19 to 31.
\<close>

definition run_args :: "'img env \<Rightarrow> args \<Rightarrow> ('img, string) io" where
  "run_args E a0 =
     (let a = strip_input a0;
          imgs = img_list E a
      in io_bind (call (Makedirs (output a)) (makedirs E (output a))) (\<lambda>_.
         io_bind (setup_bg_upsampler E a) (\<lambda>bg.
         io_bind (lift (select_variant (version a))) (\<lambda>(arch_v, mult, model_name, url).
         let r = \<lparr>model_path = determine_model_path E model_name url,
                  gfp_upscale = upscale a, arch = arch_v, channel_multiplier = mult,
                  gfp_bg_upsampler = bg\<rparr>
         in io_bind (call (NewGFPGANer r) (new_GFPGANer E r)) (\<lambda>_.
            io_bind (restore_loop E a r None imgs) (\<lambda>img_name.
            io_bind (emit (LogDebug (''Results are in the ['' @ output a @ ''] folder.''))) (\<lambda>_.
            case img_name of
              None \<Rightarrow> io_raise (UnboundLocalError ''img_name'')
            | Some n \<Rightarrow> io_return (output a @ ''/restored_imgs/'' @ n))))))))"

definition run_main :: "'img env \<Rightarrow> string \<Rightarrow> string \<Rightarrow> ('img, string) io" where
  "run_main E input_arg output_arg =
     run_args E
       \<lparr>input = input_arg, output = output_arg, version = ''1.3'', upscale = 2,
        bg_upsampler = ''realesrgan'', bg_tile = 400, suffix = None,
        only_center_face = False, aligned = False, ext = ''auto'', weight = 1 / 2\<rparr>"

section \<open>Vocabulary of the properties\<close>

text \<open>The paths handed to \<^verbatim>\<open>imwrite\<close>, in the order of the calls.\<close>

fun imwrite_path :: "'img event \<Rightarrow> string option" where
  "imwrite_path (Imwrite img p) = Some p"
| "imwrite_path ev = None"

definition written_paths :: "'img event list \<Rightarrow> string list" where
  "written_paths t = List.map_filter imwrite_path t"

text \<open>The calls of \<^verbatim>\<open>imwrite\<close> in order, each with the image written and its path.\<close>

fun imwrite_of :: "'img event \<Rightarrow> ('img \<times> string) option" where
  "imwrite_of (Imwrite img p) = Some (img, p)"
| "imwrite_of ev = None"

definition writes :: "'img event list \<Rightarrow> ('img \<times> string) list" where
  "writes t = List.map_filter imwrite_of t"

text \<open>An event that belongs to the processing of an image: decoding, restoring, writing.\<close>

fun is_processing :: "'img event \<Rightarrow> bool" where
  "is_processing (Imread p) = True"
| "is_processing (Enhance r img h c p w) = True"
| "is_processing (Imwrite img p) = True"
| "is_processing ev = False"

text \<open>The construction of a restoration engine, for whichever variant.\<close>

fun is_engine_construction :: "'img event \<Rightarrow> bool" where
  "is_engine_construction (NewGFPGANer r) = True"
| "is_engine_construction ev = False"

text \<open>
  What an event of the restore loop can be, for the arguments \<open>a\<close> and the engine \<open>r\<close>: a
  debug message, a decode, a write, or a call of \<open>r\<close> with the flags taken from \<open>a\<close> and
  \<^verbatim>\<open>paste_back=True\<close>.
\<close>

fun loop_event :: "args \<Rightarrow> restorer \<Rightarrow> 'img event \<Rightarrow> bool" where
  "loop_event a r (LogDebug m) = True"
| "loop_event a r (Imread p) = True"
| "loop_event a r (Imwrite img p) = True"
| "loop_event a r (Enhance r' img h c p w) =
     (r' = r \<and> h = aligned a \<and> c = only_center_face a \<and> p \<and> w = weight a)"
| "loop_event a r ev = False"

text \<open>
  The naming of the artifacts in words of the specification, to be compared with what the
  code writes. \<open>spec_face_name\<close> is the face-level file name as the specification states
  it, \<^verbatim>\<open><basename>_<i:02d>[_<suffix>].<ext>\<close>: suffix and extension policy apply to every
  artifact.
\<close>

definition suffix_part :: "args \<Rightarrow> string" where
  "suffix_part a = (case suffix a of None \<Rightarrow> [] | Some s \<Rightarrow> ''_'' @ s)"

definition policy_extension :: "args \<Rightarrow> string \<Rightarrow> string" where
  "policy_extension a ext_src = (if ext a = ''auto'' then drop 1 ext_src else ext a)"

definition spec_face_name :: "args \<Rightarrow> string \<Rightarrow> string \<Rightarrow> nat \<Rightarrow> string" where
  "spec_face_name a basename ext_src i =
     basename @ ''_'' @ fmt_02d i @ suffix_part a @ ''.'' @ policy_extension a ext_src"

text \<open>
  The naming with the suffix on the restored face and the full image only, the three
  face-level artifacts always \<^verbatim>\<open>.png\<close>, and the extension policy on the full image only. \<open>job_artifacts a img_path n full\<close> lists the artifacts of one job with \<open>n\<close> faces,
  in the order of writing; \<open>full\<close> tells whether the engine returned a full image.
\<close>

definition face_artifacts :: "args \<Rightarrow> string \<Rightarrow> nat \<Rightarrow> string list" where
  "face_artifacts a basename i =
     [os_path_join (output a) [''cropped_faces'', basename @ ''_'' @ fmt_02d i @ ''.png''],
      os_path_join (output a)
        [''restored_faces'', basename @ ''_'' @ fmt_02d i @ suffix_part a @ ''.png''],
      os_path_join (output a) [''cmp'', basename @ ''_'' @ fmt_02d i @ ''.png'']]"

definition full_artifact :: "args \<Rightarrow> string \<Rightarrow> string \<Rightarrow> string" where
  "full_artifact a basename ext_src =
     os_path_join (output a)
       [''restored_imgs'', basename @ suffix_part a @ ''.'' @ policy_extension a ext_src]"

definition job_artifacts :: "args \<Rightarrow> string \<Rightarrow> nat \<Rightarrow> bool \<Rightarrow> string list" where
  "job_artifacts a img_path n full =
     (let (basename, ext_src) = os_path_splitext (os_path_basename img_path)
      in concat (map (face_artifacts a basename) [0..<n]) @
         (if full then [full_artifact a basename ext_src] else []))"

text \<open>
  Which image goes where. For the face pair \<open>(c, r)\<close> with index \<open>i\<close>: the crop \<open>c\<close> under
  \<^verbatim>\<open>cropped_faces/\<close>, the restoration \<open>r\<close> under \<^verbatim>\<open>restored_faces/\<close>, and their
  concatenation along axis 1 under \<^verbatim>\<open>cmp/\<close>. For the job: the face pairs numbered from 0
  in the order of \<^verbatim>\<open>zip(cropped_faces, restored_faces)\<close>, then the full image under
  \<^verbatim>\<open>restored_imgs/\<close> if the engine returned one.
\<close>

definition face_writes ::
  "'img env \<Rightarrow> args \<Rightarrow> string \<Rightarrow> nat \<Rightarrow> 'img \<Rightarrow> 'img \<Rightarrow> ('img \<times> string) list" where
  "face_writes E a basename i c r =
     [(c, os_path_join (output a) [''cropped_faces'', basename @ ''_'' @ fmt_02d i @ ''.png'']),
      (r, os_path_join (output a)
            [''restored_faces'', basename @ ''_'' @ fmt_02d i @ suffix_part a @ ''.png''])] @
     (case concatenate E c r of
        Inr m \<Rightarrow> [(m, os_path_join (output a) [''cmp'', basename @ ''_'' @ fmt_02d i @ ''.png''])]
      | Inl e \<Rightarrow> [])"

definition job_writes ::
  "'img env \<Rightarrow> args \<Rightarrow> string \<Rightarrow> 'img list \<Rightarrow> 'img list \<Rightarrow> 'img option \<Rightarrow> ('img \<times> string) list"
  where
  "job_writes E a img_path cropped_faces restored_faces restored_img =
     (let (basename, ext_src) = os_path_splitext (os_path_basename img_path)
      in concat (map (\<lambda>(i, c, r). face_writes E a basename i c r)
                   (List.enumerate 0 (zip cropped_faces restored_faces))) @
         (case restored_img of
            None \<Rightarrow> []
          | Some img \<Rightarrow> [(img, full_artifact a basename ext_src)]))"

text \<open>What \<^verbatim>\<open>os.path.join\<close> puts in front of a relative component.\<close>

definition dir_prefix :: "string \<Rightarrow> string" where
  "dir_prefix d = (if d = [] \<or> endswith d CHR ''/'' then d else d @ ''/'')"

section \<open>Concrete environments\<close>

text \<open>
  An environment over images numbered by naturals in which no file exists, every external
  call succeeds, no file decodes, and the engine raises on an image that did not decode
  and otherwise finds no face and returns its input as the restored image.
\<close>

definition quiet_env :: "nat env" where
  "quiet_env =
     \<lparr>isfile = (\<lambda>_. False), glob = (\<lambda>_. []), makedirs = (\<lambda>_. None),
      cuda_is_available = False, new_RealESRGANer = (\<lambda>_. None), new_GFPGANer = (\<lambda>_. None),
      imread = (\<lambda>_. None),
      enhance = (\<lambda>r img h c p w. case img of
                   None \<Rightarrow> Inl (ExternalError ''enhance: not an image'')
                 | Some i \<Rightarrow> Inr ([], [], Some i)),
      concatenate = (\<lambda>x y. Inr (x + y)), imwrite = (\<lambda>_ _. None)\<rparr>"


text \<open>
  A directory \<^verbatim>\<open>in\<close> with two entries, enumerated out of order: \<^verbatim>\<open>in/a.jpg\<close> does not
  decode, \<^verbatim>\<open>in/b.jpg\<close> decodes to image 7.
\<close>

definition batch_env :: "nat env" where
  "batch_env =
     quiet_env
       \<lparr>glob := (\<lambda>p. if p = ''in/*'' then [''in/b.jpg'', ''in/a.jpg''] else []),
        imread := (\<lambda>p. if p = ''in/b.jpg'' then Some 7 else None)\<rparr>"

text \<open>
  A single file \<^verbatim>\<open>portrait.jpg\<close> that decodes to image 0, in which the engine finds one
  face (crop 1, restoration 2) and for which it returns the full image 4.
\<close>

definition portrait_env :: "nat env" where
  "portrait_env =
     quiet_env
       \<lparr>isfile := (\<lambda>p. p = ''portrait.jpg''), imread := (\<lambda>p. Some 0),
        enhance := (\<lambda>r img h c p w. Inr ([1], [2], Some 4))\<rparr>"

text \<open>The same image in a file whose name has no extension.\<close>

definition plain_env :: "nat env" where
  "plain_env = portrait_env\<lparr>isfile := (\<lambda>p. p = ''portrait'')\<rparr>"

text \<open>The engine that \<open>run_main\<close> constructs when no weights are cached and CUDA is absent.\<close>

definition cpu_restorer :: restorer where
  "cpu_restorer =
     \<lparr>model_path =
        ''https://github.com/TencentARC/GFPGAN/releases/download/v1.3.0/GFPGANv1.3.pth'',
      gfp_upscale = 2, arch = ''clean'', channel_multiplier = 2, gfp_bg_upsampler = None\<rparr>"

text \<open>Some contents of the \<^verbatim>\<open>args\<close> dictionary: those of \<open>run_main\<close> for given paths.\<close>

definition main_args :: "string \<Rightarrow> string \<Rightarrow> args" where
  "main_args i out =
     \<lparr>input = i, output = out, version = ''1.3'', upscale = 2,
      bg_upsampler = ''realesrgan'', bg_tile = 400, suffix = None,
      only_center_face = False, aligned = False, ext = ''auto'', weight = 1 / 2\<rparr>"

section \<open>Laws of sequencing\<close>

lemma io_bind_Inl [simp]: "io_bind (t, Inl e) f = (t, Inl e)"
  by (simp add: io_bind_def)

lemma io_bind_Inr [simp]: "io_bind (t, Inr x) f = (t @ fst (f x), snd (f x))"
  by (simp add: io_bind_def split: prod.splits)

lemma io_bind_return [simp]: "io_bind (io_return x) f = f x"
  by (simp add: io_return_def)

lemma io_bind_raise [simp]: "io_bind (io_raise e) f = io_raise e"
  by (simp add: io_raise_def)

lemma io_bind_emit [simp]: "io_bind (emit ev) f = (ev # fst (f ()), snd (f ()))"
  by (simp add: emit_def)

lemma io_bind_lift_Inr [simp]: "io_bind (lift (Inr x)) f = f x"
  by (simp add: lift_def)

lemma io_bind_lift_Inl [simp]: "io_bind (lift (Inl e)) f = io_raise e"
  by (simp add: lift_def io_raise_def)

lemma io_bind_call_None [simp]: "io_bind (call ev None) f = (ev # fst (f ()), snd (f ()))"
  by (simp add: call_def call_val_def)

lemma io_bind_call_Some [simp]: "io_bind (call ev (Some e)) f = ([ev], Inl e)"
  by (simp add: call_def call_val_def)

lemma io_bind_call_val_Inr [simp]:
  "io_bind (call_val ev (Inr x)) f = (ev # fst (f x), snd (f x))"
  by (simp add: call_val_def)

lemma io_bind_call_val_Inl [simp]: "io_bind (call_val ev (Inl e)) f = ([ev], Inl e)"
  by (simp add: call_val_def)

lemma fst_io_return [simp]: "fst (io_return x) = []"
  by (simp add: io_return_def)

lemma snd_io_return [simp]: "snd (io_return x) = Inr x"
  by (simp add: io_return_def)

lemma fst_io_raise [simp]: "fst (io_raise e) = []"
  by (simp add: io_raise_def)

lemma snd_io_raise [simp]: "snd (io_raise e) = Inl e"
  by (simp add: io_raise_def)

section \<open>Weight resolution\<close>

text \<open>
  Claim C3. For each of the five known model versions the dispatch succeeds, and the
  weights are looked up first as \<^verbatim>\<open>experiments/pretrained_models/<model_name>.pth\<close>, then as
  \<^verbatim>\<open>gfpgan/weights/<model_name>.pth\<close>, and otherwise the variant's download URL is taken
  without any check; the first hit wins, and the result is never the empty string.
\<close>

theorem weight_resolution:
  "\<forall>v \<in> set [''1'', ''1.2'', ''1.3'', ''1.4'', ''RestoreFormer''].
     \<exists>arch_v mult model_name url.
       select_variant v = Inr (arch_v, mult, model_name, url) \<and>
       determine_model_path E model_name url =
         (if isfile E (''experiments/pretrained_models/'' @ model_name @ ''.pth'')
          then ''experiments/pretrained_models/'' @ model_name @ ''.pth''
          else if isfile E (''gfpgan/weights/'' @ model_name @ ''.pth'')
          then ''gfpgan/weights/'' @ model_name @ ''.pth''
          else url) \<and>
       determine_model_path E model_name url \<noteq> []"
  by (simp add: select_variant_def determine_model_path_def os_path_join_def join2_def
      startswith_def endswith_def)

theorem weight_resolution_witness:
  "''1.3'' \<in> set [''1'', ''1.2'', ''1.3'', ''1.4'', ''RestoreFormer''] \<and>
   select_variant ''1.3'' =
     Inr (''clean'', 2, ''GFPGANv1.3'',
          ''https://github.com/TencentARC/GFPGAN/releases/download/v1.3.0/GFPGANv1.3.pth'') \<and>
   determine_model_path (quiet_env\<lparr>isfile := (\<lambda>p. p = ''gfpgan/weights/GFPGANv1.3.pth'')\<rparr>)
     ''GFPGANv1.3''
     ''https://github.com/TencentARC/GFPGAN/releases/download/v1.3.0/GFPGANv1.3.pth''
   = ''gfpgan/weights/GFPGANv1.3.pth''"
  using weight_resolution [of "quiet_env\<lparr>isfile := (\<lambda>p. p = ''gfpgan/weights/GFPGANv1.3.pth'')\<rparr>"]
  by (simp add: select_variant_def quiet_env_def)

section \<open>Background upsampler\<close>

text \<open>
  Claim C4. When the background upsampler \<^verbatim>\<open>realesrgan\<close> is selected and CUDA is not
  available, the adapter warns and yields the disabled handle; for any other selection it
  yields the disabled handle with no warning; when \<^verbatim>\<open>realesrgan\<close> is selected and CUDA is
  available, it constructs the tiled upsampler with scale 2, the configured tile size, tile
  padding 10 and pre-padding 0.
\<close>

theorem bg_upsampler_adapter:
  "(bg_upsampler a = ''realesrgan'' \<and> \<not> cuda_is_available E \<longrightarrow>
      setup_bg_upsampler E a = ([Warn cpu_warning], Inr None)) \<and>
   (bg_upsampler a \<noteq> ''realesrgan'' \<longrightarrow> setup_bg_upsampler E a = ([], Inr None)) \<and>
   (bg_upsampler a = ''realesrgan'' \<and> cuda_is_available E \<longrightarrow>
      (\<exists>u. setup_bg_upsampler E a =
             ([NewRealESRGANer u],
              case new_RealESRGANer E u of None \<Rightarrow> Inr (Some u) | Some e \<Rightarrow> Inl e) \<and>
           scale u = 2 \<and> tile u = bg_tile a \<and> tile_pad u = 10 \<and> pre_pad u = 0))"
proof -
  let ?u = "realesrgan_x2plus (bg_tile a)"
  have cfg: "scale ?u = 2 \<and> tile ?u = bg_tile a \<and> tile_pad ?u = 10 \<and> pre_pad ?u = 0"
    by (simp add: realesrgan_x2plus_def)
  have on: "bg_upsampler a = ''realesrgan'' \<Longrightarrow> cuda_is_available E \<Longrightarrow>
      setup_bg_upsampler E a =
        ([NewRealESRGANer ?u],
         case new_RealESRGANer E ?u of None \<Rightarrow> Inr (Some ?u) | Some e \<Rightarrow> Inl e)"
    by (cases "new_RealESRGANer E ?u") (simp_all add: setup_bg_upsampler_def Let_def)
  have off: "bg_upsampler a = ''realesrgan'' \<Longrightarrow> \<not> cuda_is_available E \<Longrightarrow>
      setup_bg_upsampler E a = ([Warn cpu_warning], Inr None)"
    by (simp add: setup_bg_upsampler_def)
  have other: "bg_upsampler a \<noteq> ''realesrgan'' \<Longrightarrow> setup_bg_upsampler E a = ([], Inr None)"
    by (simp add: setup_bg_upsampler_def io_return_def)
  from cfg on off other show ?thesis by blast
qed

theorem bg_upsampler_adapter_witness:
  "setup_bg_upsampler quiet_env (main_args ''in'' ''out'') = ([Warn cpu_warning], Inr None) \<and>
   setup_bg_upsampler quiet_env ((main_args ''in'' ''out'')\<lparr>bg_upsampler := ''none''\<rparr>) = ([], Inr None) \<and>
   (\<exists>u. setup_bg_upsampler (quiet_env\<lparr>cuda_is_available := True\<rparr>) (main_args ''in'' ''out'') =
          ([NewRealESRGANer u], Inr (Some u)) \<and>
        scale u = 2 \<and> tile u = 400 \<and> tile_pad u = 10 \<and> pre_pad u = 0)"
  using bg_upsampler_adapter [of "main_args ''in'' ''out''" quiet_env]
    bg_upsampler_adapter [of "(main_args ''in'' ''out'')\<lparr>bg_upsampler := ''none''\<rparr>" quiet_env]
    bg_upsampler_adapter [of "main_args ''in'' ''out''" "quiet_env\<lparr>cuda_is_available := True\<rparr>"]
  by (simp add: main_args_def quiet_env_def)

section \<open>Unknown model version\<close>

lemma setup_bg_upsampler_events:
  "list_all (\<lambda>ev. \<not> is_processing ev \<and> \<not> is_engine_construction ev)
     (fst (setup_bg_upsampler E a))"
  unfolding setup_bg_upsampler_def Let_def
  by (cases "new_RealESRGANer E (realesrgan_x2plus (bg_tile a))") simp_all

lemma output_strip_input [simp]: "output (strip_input a) = output a"
  by (simp add: strip_input_def)

lemma version_strip_input [simp]: "version (strip_input a) = version a"
  by (simp add: strip_input_def)

lemma select_variant_unknown:
  "v \<notin> set [''1'', ''1.2'', ''1.3'', ''1.4'', ''RestoreFormer''] \<Longrightarrow>
   select_variant v = Inl (ValueError ''Wrong model version!'')"
  by (simp add: select_variant_def)

lemma run_args_unknown_version:
  assumes "version a \<notin> set [''1'', ''1.2'', ''1.3'', ''1.4'', ''RestoreFormer'']"
  shows "run_args E a =
           io_bind (call (Makedirs (output a)) (makedirs E (output a))) (\<lambda>_.
           io_bind (setup_bg_upsampler E (strip_input a)) (\<lambda>_.
           io_raise (ValueError ''Wrong model version!'')))"
  using assms by (simp add: run_args_def Let_def select_variant_unknown del: set_simps)

text \<open>
  Claim C5. A model version outside the five known ones makes the run end with an
  exception. Nothing is decoded, restored or written and no restoration engine is
  constructed, for any variant; when the output directory and the background upsampler
  were set up without error, the exception is the \<^verbatim>\<open>ValueError\<close> of line 92.
\<close>

theorem unknown_version_aborts:
  assumes "version a \<notin> set [''1'', ''1.2'', ''1.3'', ''1.4'', ''RestoreFormer'']"
  shows "(\<exists>e. snd (run_args E a) = Inl e) \<and>
         (makedirs E (output a) = None \<and> (\<exists>bg. snd (setup_bg_upsampler E (strip_input a)) = Inr bg)
            \<longrightarrow> snd (run_args E a) = Inl (ValueError ''Wrong model version!'')) \<and>
         list_all (\<lambda>ev. \<not> is_processing ev \<and> \<not> is_engine_construction ev) (fst (run_args E a))"
proof -
  note eq = run_args_unknown_version [OF assms, of E]
  obtain t r where s: "setup_bg_upsampler E (strip_input a) = (t, r)"
    by (cases "setup_bg_upsampler E (strip_input a)")
  have ev: "list_all (\<lambda>ev. \<not> is_processing ev \<and> \<not> is_engine_construction ev) t"
    using setup_bg_upsampler_events [of E "strip_input a"] s by simp
  have 1: "\<exists>e. snd (run_args E a) = Inl e"
    unfolding eq s by (cases "makedirs E (output a)"; cases r) simp_all
  have 2: "makedirs E (output a) = None \<and> (\<exists>bg. snd (setup_bg_upsampler E (strip_input a)) = Inr bg)
            \<longrightarrow> snd (run_args E a) = Inl (ValueError ''Wrong model version!'')"
    unfolding eq s by auto
  have 3: "list_all (\<lambda>ev. \<not> is_processing ev \<and> \<not> is_engine_construction ev) (fst (run_args E a))"
    unfolding eq s using ev by (cases "makedirs E (output a)"; cases r) simp_all
  from 1 2 3 show ?thesis by blast
qed

theorem unknown_version_aborts_witness:
  "version ((main_args ''in'' ''out'')\<lparr>version := ''2''\<rparr>)
     \<notin> set [''1'', ''1.2'', ''1.3'', ''1.4'', ''RestoreFormer''] \<and>
   makedirs quiet_env ''out'' = None \<and>
   snd (setup_bg_upsampler quiet_env (strip_input ((main_args ''in'' ''out'')\<lparr>version := ''2''\<rparr>)))
     = Inr None \<and>
   snd (run_args quiet_env ((main_args ''in'' ''out'')\<lparr>version := ''2''\<rparr>)) =
     Inl (ValueError ''Wrong model version!'') \<and>
   list_all (\<lambda>ev. \<not> is_processing ev \<and> \<not> is_engine_construction ev)
     (fst (run_args quiet_env ((main_args ''in'' ''out'')\<lparr>version := ''2''\<rparr>)))"
  using unknown_version_aborts [of "(main_args ''in'' ''out'')\<lparr>version := ''2''\<rparr>" quiet_env]
  by (simp add: main_args_def quiet_env_def setup_bg_upsampler_def strip_input_def endswith_def)

section \<open>The empty batch\<close>

text \<open>
  Claim C1. With an input directory in which the wildcard matches nothing, the loop
  body never runs, so \<^verbatim>\<open>img_name\<close> is unbound when line 156 reads it: the run writes no
  artifact but ends with \<^verbatim>\<open>UnboundLocalError\<close> instead of returning a value.
\<close>

theorem empty_batch_raises:
  "run_main (quiet_env\<lparr>glob := (\<lambda>p. [])\<rparr>) ''empty_dir'' ''out'' =
     ([Makedirs ''out'', Warn cpu_warning,
       NewGFPGANer \<lparr>model_path = ''https://github.com/TencentARC/GFPGAN/releases/download/v1.3.0/GFPGANv1.3.pth'',
                    gfp_upscale = 2, arch = ''clean'', channel_multiplier = 2, gfp_bg_upsampler = None\<rparr>,
       LogDebug ''Results are in the [out] folder.''],
      Inl (UnboundLocalError ''img_name''))"
  by (simp add: run_main_def run_args_def Let_def quiet_env_def strip_input_def endswith_def
      img_list_def setup_bg_upsampler_def select_variant_def determine_model_path_def
      os_path_join_def join2_def startswith_def)

section \<open>Input enumeration\<close>






section \<open>Events of a run\<close>

lemma fst_io_bind:
  "fst (io_bind m f) = fst m @ (case snd m of Inl e \<Rightarrow> [] | Inr x \<Rightarrow> fst (f x))"
  by (cases m; cases "snd m") auto

lemma snd_io_bind:
  "snd (io_bind m f) = (case snd m of Inl e \<Rightarrow> Inl e | Inr x \<Rightarrow> snd (f x))"
  by (cases m; cases "snd m") auto

lemma list_all_io_bind:
  assumes "list_all P (fst m)" and "\<And>x. list_all P (fst (f x))"
  shows "list_all P (fst (io_bind m f))"
  using assms by (simp add: fst_io_bind split: sum.splits)

lemma fst_call [simp]: "fst (call ev r) = [ev]"
  by (simp add: call_def call_val_def)

lemma snd_call [simp]: "snd (call ev r) = (case r of None \<Rightarrow> Inr () | Some e \<Rightarrow> Inl e)"
  by (simp add: call_def call_val_def)

lemma fst_call_val [simp]: "fst (call_val ev r) = [ev]"
  by (simp add: call_val_def)

lemma snd_call_val [simp]: "snd (call_val ev r) = r"
  by (simp add: call_val_def)

lemma fst_emit [simp]: "fst (emit ev) = [ev]"
  by (simp add: emit_def)

lemma snd_emit [simp]: "snd (emit ev) = Inr ()"
  by (simp add: emit_def)

lemma fst_lift [simp]: "fst (lift r) = []"
  by (simp add: lift_def)

lemma snd_lift [simp]: "snd (lift r) = r"
  by (simp add: lift_def)

text \<open>Every event of the restore loop is a \<open>loop_event\<close>.\<close>

lemma save_faces_events: "list_all (loop_event a r) (fst (save_faces E a b idx faces))"
proof (induction faces arbitrary: idx)
  case Nil
  show ?case by simp
next
  case (Cons f faces)
  obtain c rf where f: "f = (c, rf)" by (cases f)
  show ?case
    unfolding f save_faces.simps Let_def
    by (intro list_all_io_bind Cons.IH) simp_all
qed

lemma save_restored_img_events:
  "list_all (loop_event a r) (fst (save_restored_img E a b e ri))"
  by (cases ri) (simp_all add: save_restored_img_def Let_def)

lemma process_image_events: "list_all (loop_event a r) (fst (process_image E a r p))"
  unfolding process_image_def Let_def split_def
  by (intro list_all_io_bind save_faces_events save_restored_img_events) simp_all

lemma restore_loop_events: "list_all (loop_event a r) (fst (restore_loop E a r n imgs))"
proof (induction imgs arbitrary: n)
  case Nil
  show ?case by simp
next
  case (Cons p imgs)
  show ?case
    unfolding restore_loop.simps
    by (intro list_all_io_bind process_image_events Cons.IH)
qed


lemma strip_input_fields [simp]:
  "upscale (strip_input a) = upscale a"
  "bg_upsampler (strip_input a) = bg_upsampler a"
  "bg_tile (strip_input a) = bg_tile a"
  "suffix (strip_input a) = suffix a"
  "only_center_face (strip_input a) = only_center_face a"
  "aligned (strip_input a) = aligned a"
  "ext (strip_input a) = ext a"
  "weight (strip_input a) = weight a"
  by (simp_all add: strip_input_def)

text \<open>The run for a known model version, with the dispatch resolved.\<close>

lemma run_args_known:
  assumes "select_variant (version a) = Inr (arch_v, cm, model_name, url)"
  shows "run_args E a =
     io_bind (call (Makedirs (output a)) (makedirs E (output a))) (\<lambda>_.
     io_bind (setup_bg_upsampler E (strip_input a)) (\<lambda>bg.
     io_bind (call (NewGFPGANer
                \<lparr>model_path = determine_model_path E model_name url,
                 gfp_upscale = upscale a, arch = arch_v, channel_multiplier = cm,
                 gfp_bg_upsampler = bg\<rparr>)
              (new_GFPGANer E
                \<lparr>model_path = determine_model_path E model_name url,
                 gfp_upscale = upscale a, arch = arch_v, channel_multiplier = cm,
                 gfp_bg_upsampler = bg\<rparr>)) (\<lambda>_.
     io_bind (restore_loop E (strip_input a)
                \<lparr>model_path = determine_model_path E model_name url,
                 gfp_upscale = upscale a, arch = arch_v, channel_multiplier = cm,
                 gfp_bg_upsampler = bg\<rparr> None (img_list E (strip_input a))) (\<lambda>img_name.
     io_bind (emit (LogDebug (''Results are in the ['' @ output a @ ''] folder.''))) (\<lambda>_.
     case img_name of
       None \<Rightarrow> io_raise (UnboundLocalError ''img_name'')
     | Some n \<Rightarrow> io_return (output a @ ''/restored_imgs/'' @ n))))))"
  using assms by (simp add: run_args_def Let_def cong: option.case_cong)

section \<open>The fixed configuration of the entry point\<close>

text \<open>
  Claim C10. Whatever the caller passes, \<open>run_main\<close> is the run under one configuration
  in which only the input and output paths vary: version 1.3, upscale 2, background
  upsampler \<^verbatim>\<open>realesrgan\<close> with tile size 400, no suffix, extension policy \<^verbatim>\<open>auto\<close>,
  weight 0.5. Accordingly every engine it constructs is the clean architecture with
  channel multiplier 2, upscale 2 and the weights of GFPGANv1.3, every background upsampler
  it constructs has scale 2 and tile size 400, and every \<^verbatim>\<open>enhance\<close> call has
  \<^verbatim>\<open>has_aligned=False\<close>, \<^verbatim>\<open>only_center_face=False\<close>, \<^verbatim>\<open>paste_back=True\<close> and weight 0.5.
\<close>

theorem fixed_configuration:
  "run_main E i out =
     run_args E
       \<lparr>input = i, output = out, version = ''1.3'', upscale = 2,
        bg_upsampler = ''realesrgan'', bg_tile = 400, suffix = None,
        only_center_face = False, aligned = False, ext = ''auto'', weight = 1 / 2\<rparr> \<and>
   list_all
     (\<lambda>ev. case ev of
        Enhance r img has_aligned only_center paste_back w \<Rightarrow>
          \<not> has_aligned \<and> \<not> only_center \<and> paste_back \<and> w = 1 / 2 \<and>
          arch r = ''clean'' \<and> channel_multiplier r = 2 \<and> gfp_upscale r = 2
      | NewGFPGANer r \<Rightarrow>
          arch r = ''clean'' \<and> channel_multiplier r = 2 \<and> gfp_upscale r = 2 \<and>
          model_path r =
            determine_model_path E ''GFPGANv1.3''
              ''https://github.com/TencentARC/GFPGAN/releases/download/v1.3.0/GFPGANv1.3.pth''
      | NewRealESRGANer u \<Rightarrow> scale u = 2 \<and> tile u = 400
      | _ \<Rightarrow> True)
     (fst (run_main E i out))"
  (is "?eq \<and> list_all ?P _")
proof
  show ?eq by (simp add: run_main_def)
next
  let ?a = "strip_input (main_args i out)"
  have sv: "select_variant (version (main_args i out)) =
      Inr (''clean'', 2, ''GFPGANv1.3'',
           ''https://github.com/TencentARC/GFPGAN/releases/download/v1.3.0/GFPGANv1.3.pth'')"
    by (simp add: select_variant_def main_args_def)
  have su: "list_all ?P (fst (setup_bg_upsampler E ?a))"
    unfolding setup_bg_upsampler_def Let_def
    by (cases "new_RealESRGANer E (realesrgan_x2plus (bg_tile ?a))")
       (simp_all add: realesrgan_x2plus_def main_args_def)
  have loop: "list_all ?P (fst (restore_loop E ?a r n imgs))"
    if "arch r = ''clean''" "channel_multiplier r = 2" "gfp_upscale r = 2" for r n imgs
  proof (rule list.pred_mono_strong [OF restore_loop_events])
    fix ev :: "'a event"
    assume "loop_event ?a r ev"
    with that show "?P ev" by (cases ev) (simp_all add: main_args_def)
  qed
  have "list_all ?P (fst (run_args E (main_args i out)))"
    unfolding run_args_known [OF sv]
    by (intro list_all_io_bind su loop) (simp_all add: main_args_def split: option.splits)
  then show "list_all ?P (fst (run_main E i out))"
    by (simp add: run_main_def main_args_def)
qed

section \<open>Written paths\<close>

lemma written_paths_simps [simp]:
  "written_paths [] = []"
  "written_paths (Imwrite img p # t) = p # written_paths t"
  "written_paths (Makedirs d # t) = written_paths t"
  "written_paths (Warn m # t) = written_paths t"
  "written_paths (LogDebug m # t) = written_paths t"
  "written_paths (NewRealESRGANer u # t) = written_paths t"
  "written_paths (NewGFPGANer r # t) = written_paths t"
  "written_paths (Imread p # t) = written_paths t"
  "written_paths (Enhance r i h c pb w # t) = written_paths t"
  by (simp_all add: written_paths_def List.map_filter_simps)

lemma written_paths_append [simp]: "written_paths (t @ t') = written_paths t @ written_paths t'"
  by (simp add: written_paths_def List.map_filter_def)

lemma writes_simps [simp]:
  "writes [] = []"
  "writes (Imwrite img p # t) = (img, p) # writes t"
  "writes (Makedirs d # t) = writes t"
  "writes (Warn m # t) = writes t"
  "writes (LogDebug m # t) = writes t"
  "writes (NewRealESRGANer u # t) = writes t"
  "writes (NewGFPGANer r # t) = writes t"
  "writes (Imread p # t) = writes t"
  "writes (Enhance r i h c pb w # t) = writes t"
  by (simp_all add: writes_def List.map_filter_simps)

lemma writes_append [simp]: "writes (t @ t') = writes t @ writes t'"
  by (simp add: writes_def List.map_filter_def)

lemma written_paths_writes: "written_paths t = map snd (writes t)"
proof (induction t)
  case Nil
  show ?case by simp
next
  case (Cons ev t)
  then show ?case by (cases ev) simp_all
qed

section \<open>The single-portrait scenario\<close>

lemma basename_portrait: "os_path_basename ''portrait.jpg'' = ''portrait.jpg''"
  by (simp add: os_path_basename_def rfind_def)

lemma splitext_portrait: "os_path_splitext ''portrait.jpg'' = (''portrait'', ''.jpg'')"
  by (simp add: os_path_splitext_def rfind_def)

text \<open>
  Claim C9. The input is the single file \<^verbatim>\<open>portrait.jpg\<close> and the output directory is
  \<^verbatim>\<open>output\<close>; the configuration is that of \<open>run_main\<close> (version 1.3, no suffix, extension
  policy \<^verbatim>\<open>auto\<close>). If the engine finds one face and returns a full restored image, and
  no external call fails, the run writes exactly the four artifacts
  \<^verbatim>\<open>output/cropped_faces/portrait_00.png\<close>, \<^verbatim>\<open>output/restored_faces/portrait_00.png\<close>,
  \<^verbatim>\<open>output/cmp/portrait_00.png\<close> and \<^verbatim>\<open>output/restored_imgs/portrait.jpg\<close>.
\<close>

theorem portrait_scenario:
  assumes isf: "isfile E ''portrait.jpg''"
    and mk: "makedirs E ''output'' = None"
    and up: "\<forall>u. new_RealESRGANer E u = None"
    and en: "\<forall>r. new_GFPGANer E r = None"
    and enh: "\<forall>r. enhance E r (imread E ''portrait.jpg'') False False True (1 / 2) =
               Inr ([c], [f], Some full)"
    and cat: "concatenate E c f = Inr cmp_img"
    and wr: "\<forall>img p. imwrite E img p = None"
  shows "written_paths (fst (run_main E ''portrait.jpg'' ''output'')) =
           [''output/cropped_faces/portrait_00.png'', ''output/restored_faces/portrait_00.png'',
            ''output/cmp/portrait_00.png'', ''output/restored_imgs/portrait.jpg''] \<and>
         snd (run_main E ''portrait.jpg'' ''output'') = Inr ''output/restored_imgs/portrait.jpg''"
proof -
  let ?a = "main_args ''portrait.jpg'' ''output''"
  have a: "strip_input ?a = ?a"
    by (simp add: strip_input_def main_args_def endswith_def)
  have imgs: "img_list E ?a = [''portrait.jpg'']"
    using isf by (simp add: img_list_def main_args_def)
  have sv: "select_variant (version ?a) =
      Inr (''clean'', 2, ''GFPGANv1.3'',
           ''https://github.com/TencentARC/GFPGAN/releases/download/v1.3.0/GFPGANv1.3.pth'')"
    by (simp add: select_variant_def main_args_def)
  obtain t bg where su: "setup_bg_upsampler E ?a = (t, Inr bg)" and t: "written_paths t = []"
    using up by (cases "cuda_is_available E")
      (simp_all add: setup_bg_upsampler_def Let_def main_args_def io_return_def)
  have faces: "save_faces E ?a ''portrait'' 0 [(c, f)] =
      ([Imwrite c ''output/cropped_faces/portrait_00.png'',
        Imwrite f ''output/restored_faces/portrait_00.png'',
        Imwrite cmp_img ''output/cmp/portrait_00.png''], Inr ())"
    using wr cat
    by (simp add: Let_def face_name_def save_face_name_def fmt_02d_def os_path_join_def
        join2_def startswith_def endswith_def main_args_def io_return_def)
  have img: "save_restored_img E ?a ''portrait'' ''.jpg'' (Some full) =
      ([Imwrite full ''output/restored_imgs/portrait.jpg''], Inr ())"
    using wr
    by (simp add: save_restored_img_def restored_img_path_def Let_def os_path_join_def
        join2_def startswith_def endswith_def main_args_def call_def call_val_def)
  have job: "process_image E ?a r ''portrait.jpg'' =
      ([LogDebug ''Processing portrait.jpg ...'', Imread ''portrait.jpg'',
        Enhance r (imread E ''portrait.jpg'') False False True (1 / 2),
        Imwrite c ''output/cropped_faces/portrait_00.png'',
        Imwrite f ''output/restored_faces/portrait_00.png'',
        Imwrite cmp_img ''output/cmp/portrait_00.png'',
        Imwrite full ''output/restored_imgs/portrait.jpg''], Inr ''portrait.jpg'')" for r
    using enh [rule_format, of r] faces img
    by (simp add: process_image_def basename_portrait splitext_portrait main_args_def Let_def)
  have "written_paths (fst (run_args E ?a)) =
           [''output/cropped_faces/portrait_00.png'', ''output/restored_faces/portrait_00.png'',
            ''output/cmp/portrait_00.png'', ''output/restored_imgs/portrait.jpg''] \<and>
         snd (run_args E ?a) = Inr ''output/restored_imgs/portrait.jpg''"
    unfolding run_args_known [OF sv] a imgs su restore_loop.simps job
    using mk en t by (simp add: main_args_def)
  then show ?thesis
    by (simp add: run_main_def main_args_def)
qed

theorem portrait_scenario_witness:
  "isfile (quiet_env\<lparr>isfile := (\<lambda>p. p = ''portrait.jpg''), imread := (\<lambda>p. Some 0),
                     enhance := (\<lambda>r img h c p w. Inr ([1], [2], Some 4))\<rparr>) ''portrait.jpg'' \<and>
   written_paths (fst (run_main
       (quiet_env\<lparr>isfile := (\<lambda>p. p = ''portrait.jpg''), imread := (\<lambda>p. Some 0),
                  enhance := (\<lambda>r img h c p w. Inr ([1], [2], Some 4))\<rparr>)
       ''portrait.jpg'' ''output'')) =
     [''output/cropped_faces/portrait_00.png'', ''output/restored_faces/portrait_00.png'',
      ''output/cmp/portrait_00.png'', ''output/restored_imgs/portrait.jpg''] \<and>
   snd (run_main
       (quiet_env\<lparr>isfile := (\<lambda>p. p = ''portrait.jpg''), imread := (\<lambda>p. Some 0),
                  enhance := (\<lambda>r img h c p w. Inr ([1], [2], Some 4))\<rparr>)
       ''portrait.jpg'' ''output'') = Inr ''output/restored_imgs/portrait.jpg''"
  using portrait_scenario [of
      "quiet_env\<lparr>isfile := (\<lambda>p. p = ''portrait.jpg''), imread := (\<lambda>p. Some 0),
                 enhance := (\<lambda>r img h c p w. Inr ([1], [2], Some 4))\<rparr>" 1 2 4 3]
  by (simp add: quiet_env_def)

section \<open>Decode failures\<close>

lemma io_bind_assoc: "io_bind (io_bind m f) g = io_bind m (\<lambda>x. io_bind (f x) g)"
proof (cases m)
  case (Pair t r)
  show ?thesis
  proof (cases r)
    case (Inl e)
    with Pair show ?thesis by simp
  next
    case (Inr x)
    obtain t' r' where f: "f x = (t', r')" by (cases "f x")
    show ?thesis unfolding Pair Inr by (cases r') (simp_all add: f)
  qed
qed

lemma restore_loop_append:
  "restore_loop E a r n (xs @ ys) =
     io_bind (restore_loop E a r n xs) (\<lambda>m. restore_loop E a r m ys)"
  by (induction xs arbitrary: n) (simp_all add: io_bind_assoc)

lemma process_image_undecoded:
  assumes "imread E p = None"
    and "enhance E r None (aligned a) (only_center_face a) True (weight a) = Inl e"
  shows "process_image E a r p =
           ([LogDebug (''Processing '' @ os_path_basename p @ '' ...''), Imread p,
             Enhance r None (aligned a) (only_center_face a) True (weight a)], Inl e)"
  using assms by (simp add: process_image_def Let_def split_def)

lemma restore_loop_failing_job:
  assumes "p \<in> set imgs" and "\<exists>e. snd (process_image E a r p) = Inl e"
  shows "\<exists>e. snd (restore_loop E a r n imgs) = Inl e"
  using assms(1)
proof (induction imgs arbitrary: n)
  case Nil
  then show ?case by simp
next
  case (Cons q imgs)
  show ?case
  proof (cases "snd (process_image E a r q)")
    case (Inl e)
    then show ?thesis by (simp add: snd_io_bind)
  next
    case (Inr m)
    with assms(2) have "q \<noteq> p" by auto
    with Cons.prems have "p \<in> set imgs" by simp
    from Cons.IH [OF this] Inr show ?thesis by (simp add: snd_io_bind)
  qed
qed

lemma run_args_failing_loop:
  assumes "\<And>r. \<exists>e. snd (restore_loop E (strip_input a) r None (img_list E (strip_input a))) = Inl e"
  shows "\<exists>e. snd (run_args E a) = Inl e"
proof (cases "select_variant (version a)")
  case (Inl e)
  then show ?thesis
    by (simp add: run_args_def Let_def snd_io_bind split: sum.splits option.splits)
next
  case (Inr v)
  obtain av cm mn url where v: "v = (av, cm, mn, url)" by (cases v)
  show ?thesis
    unfolding run_args_known [OF Inr [unfolded v]]
  proof (simp add: snd_io_bind split: sum.splits option.splits, intro impI allI notI)
    fix bg
    assume "\<exists>n. snd (restore_loop E (strip_input a)
        \<lparr>model_path = determine_model_path E mn url, gfp_upscale = upscale a, arch = av,
         channel_multiplier = cm, gfp_bg_upsampler = bg\<rparr> None (img_list E (strip_input a))) =
        Inr (Some n)"
    with assms [of "\<lparr>model_path = determine_model_path E mn url, gfp_upscale = upscale a,
        arch = av, channel_multiplier = cm, gfp_bg_upsampler = bg\<rparr>"]
    show False by auto
  qed
qed


lemma sort_batch: "sort [''in/b.jpg'', ''in/a.jpg''] = [''in/a.jpg'', ''in/b.jpg'']"
  by code_simp

lemma img_list_batch: "img_list batch_env (main_args ''in'' ''out'') = [''in/a.jpg'', ''in/b.jpg'']"
  by (simp add: img_list_def main_args_def batch_env_def quiet_env_def os_path_join_def
      join2_def startswith_def endswith_def sort_batch)

lemma strip_input_plain: "strip_input (main_args ''in'' ''out'') = main_args ''in'' ''out''"
  by (simp add: strip_input_def main_args_def endswith_def)

lemma basename_batch: "os_path_basename ''in/a.jpg'' = ''a.jpg''"
  by (simp add: os_path_basename_def rfind_def)

text \<open>
  Claim C7, as stated, fails: in a directory whose first image does not decode, the
  undecoded image is handed to the engine, the engine's exception ends the run, and the
  second image is never read.
\<close>

theorem decode_failure_counterexample:
  "run_main batch_env ''in'' ''out'' =
   ([Makedirs ''out'', Warn cpu_warning, NewGFPGANer cpu_restorer,
     LogDebug ''Processing a.jpg ...'', Imread ''in/a.jpg'',
     Enhance cpu_restorer None False False True (1 / 2)],
    Inl (ExternalError ''enhance: not an image''))"
proof -
  let ?a = "main_args ''in'' ''out''"
  have sv: "select_variant (version ?a) =
      Inr (''clean'', 2, ''GFPGANv1.3'',
           ''https://github.com/TencentARC/GFPGAN/releases/download/v1.3.0/GFPGANv1.3.pth'')"
    by (simp add: select_variant_def main_args_def)
  have job: "process_image batch_env ?a r ''in/a.jpg'' =
      ([LogDebug ''Processing a.jpg ...'', Imread ''in/a.jpg'',
        Enhance r None False False True (1 / 2)],
       Inl (ExternalError ''enhance: not an image''))" for r
    using process_image_undecoded [of batch_env "''in/a.jpg''" r ?a
        "ExternalError ''enhance: not an image''"]
    by (simp add: batch_env_def quiet_env_def main_args_def basename_batch)
  have "run_args batch_env ?a =
   ([Makedirs ''out'', Warn cpu_warning, NewGFPGANer cpu_restorer,
     LogDebug ''Processing a.jpg ...'', Imread ''in/a.jpg'',
     Enhance cpu_restorer None False False True (1 / 2)],
    Inl (ExternalError ''enhance: not an image''))"
    unfolding run_args_known [OF sv] strip_input_plain img_list_batch restore_loop.simps job
    by (simp add: main_args_def batch_env_def quiet_env_def setup_bg_upsampler_def
        determine_model_path_def os_path_join_def join2_def startswith_def cpu_restorer_def)
  then show ?thesis
    by (simp add: run_main_def main_args_def)
qed

text \<open>
  Claim C7, amended. The orchestrator does not check the result of decoding: an image
  that fails to decode is neither logged as such nor skipped but passed to \<^verbatim>\<open>enhance\<close> as it
  is. If the engine raises on it, the exception ends the restore loop at that job, after
  the jobs before it and with nothing of the jobs after it; and if the engine raises on
  every image that did not decode, a batch that holds one ends with an exception
  instead of a result.
\<close>

theorem decode_failure_is_fatal:
  assumes nd: "imread E p = None"
  shows "(\<exists>t. fst (process_image E a r p) =
            LogDebug (''Processing '' @ os_path_basename p @ '' ...'') # Imread p #
            Enhance r None (aligned a) (only_center_face a) True (weight a) # t) \<and>
         (\<forall>e. enhance E r None (aligned a) (only_center_face a) True (weight a) = Inl e \<longrightarrow>
            (\<forall>n pre rest m. snd (restore_loop E a r n pre) = Inr m \<longrightarrow>
               restore_loop E a r n (pre @ p # rest) =
                 (fst (restore_loop E a r n pre) @
                  [LogDebug (''Processing '' @ os_path_basename p @ '' ...''), Imread p,
                   Enhance r None (aligned a) (only_center_face a) True (weight a)], Inl e))) \<and>
         ((\<forall>r h c w. \<exists>e. enhance E r None h c True w = Inl e) \<and>
          p \<in> set (img_list E (strip_input a)) \<longrightarrow> (\<exists>e. snd (run_args E a) = Inl e))"
proof (intro conjI allI impI)
  show "\<exists>t. fst (process_image E a r p) =
            LogDebug (''Processing '' @ os_path_basename p @ '' ...'') # Imread p #
            Enhance r None (aligned a) (only_center_face a) True (weight a) # t"
    by (simp add: process_image_def Let_def split_def fst_io_bind nd)
next
  fix e n pre rest m
  assume e: "enhance E r None (aligned a) (only_center_face a) True (weight a) = Inl e"
    and pre: "snd (restore_loop E a r n pre) = Inr m"
  obtain t where t: "restore_loop E a r n pre = (t, Inr m)"
    using pre by (cases "restore_loop E a r n pre") simp
  show "restore_loop E a r n (pre @ p # rest) =
      (fst (restore_loop E a r n pre) @
       [LogDebug (''Processing '' @ os_path_basename p @ '' ...''), Imread p,
        Enhance r None (aligned a) (only_center_face a) True (weight a)], Inl e)"
    unfolding restore_loop_append t restore_loop.simps process_image_undecoded [OF nd e]
    by simp
next
  assume "(\<forall>r h c w. \<exists>e. enhance E r None h c True w = Inl e) \<and>
      p \<in> set (img_list E (strip_input a))"
  then have rej: "\<forall>r h c w. \<exists>e. enhance E r None h c True w = Inl e"
    and p: "p \<in> set (img_list E (strip_input a))"
    by simp_all
  have "\<exists>e. snd (process_image E (strip_input a) r p) = Inl e" for r
  proof -
    from rej obtain e where
      "enhance E r None (aligned (strip_input a)) (only_center_face (strip_input a)) True
         (weight (strip_input a)) = Inl e"
      by blast
    from process_image_undecoded [OF nd this] show ?thesis by simp
  qed
  then have "\<exists>e. snd (restore_loop E (strip_input a) r None (img_list E (strip_input a))) = Inl e"
    for r
    using restore_loop_failing_job [OF p] by blast
  then show "\<exists>e. snd (run_args E a) = Inl e"
    by (rule run_args_failing_loop)
qed

theorem decode_failure_is_fatal_witness:
  "imread batch_env ''in/a.jpg'' = None \<and>
   enhance batch_env cpu_restorer None False False True (1 / 2) =
     Inl (ExternalError ''enhance: not an image'') \<and>
   ''in/a.jpg'' \<in> set (img_list batch_env (strip_input (main_args ''in'' ''out''))) \<and>
   snd (restore_loop batch_env (main_args ''in'' ''out'') cpu_restorer None []) = Inr None \<and>
   restore_loop batch_env (main_args ''in'' ''out'') cpu_restorer None
       [''in/a.jpg'', ''in/b.jpg''] =
     ([LogDebug ''Processing a.jpg ...'', Imread ''in/a.jpg'',
       Enhance cpu_restorer None False False True (1 / 2)],
      Inl (ExternalError ''enhance: not an image'')) \<and>
   (\<exists>e. snd (run_args batch_env (main_args ''in'' ''out'')) = Inl e)"
proof -
  let ?a = "main_args ''in'' ''out''"
  have nd: "imread batch_env ''in/a.jpg'' = None"
    by (simp add: batch_env_def quiet_env_def)
  have rej: "\<forall>r h c w. \<exists>e. enhance batch_env r None h c True w = Inl e"
    by (simp add: batch_env_def quiet_env_def)
  have e: "enhance batch_env cpu_restorer None (aligned ?a) (only_center_face ?a) True (weight ?a) =
      Inl (ExternalError ''enhance: not an image'')"
    by (simp add: batch_env_def quiet_env_def)
  note th = decode_failure_is_fatal [OF nd, of ?a cpu_restorer]
  have mem: "''in/a.jpg'' \<in> set (img_list batch_env (strip_input ?a))"
    by (simp add: strip_input_plain img_list_batch)
  have pre: "snd (restore_loop batch_env ?a cpu_restorer None []) = Inr None"
    by simp
  from th rej mem have run: "\<exists>e. snd (run_args batch_env ?a) = Inl e"
    by blast
  from th [THEN conjunct2, THEN conjunct1, rule_format, OF e pre, of "[''in/b.jpg'']"]
  have loop: "restore_loop batch_env ?a cpu_restorer None [''in/a.jpg'', ''in/b.jpg''] =
        ([LogDebug ''Processing a.jpg ...'', Imread ''in/a.jpg'',
          Enhance cpu_restorer None False False True (1 / 2)],
         Inl (ExternalError ''enhance: not an image''))"
    by (simp add: basename_batch main_args_def)
  from e have "enhance batch_env cpu_restorer None False False True (1 / 2) =
      Inl (ExternalError ''enhance: not an image'')"
    by (simp add: main_args_def)
  with nd mem pre loop run show ?thesis by blast
qed

section \<open>Facts about paths\<close>

lemma rfind_last_occurrence:
  assumes "c \<notin> set ys"
  shows "rfind (xs @ c # ys) c = int (length xs)"
proof -
  have "takeWhile (\<lambda>x. x \<noteq> c) (rev ys @ c # rev xs) = rev ys"
    using assms by (auto simp add: takeWhile_tail)
  then show ?thesis by (simp add: rfind_def)
qed

lemma rfind_absent: "c \<notin> set s \<Longrightarrow> rfind s c = - 1"
  by (simp add: rfind_def)

lemma rfind_lower: "- 1 \<le> rfind s c"
proof (cases "c \<in> set s")
  case True
  then obtain xs ys where "s = xs @ c # ys" "c \<notin> set ys"
    by (meson split_list_last)
  then show ?thesis by (simp add: rfind_last_occurrence)
next
  case False
  then show ?thesis by (simp add: rfind_absent)
qed

lemma basename_no_sep: "CHR ''/'' \<notin> set (os_path_basename p)"
proof (cases "CHR ''/'' \<in> set p")
  case True
  then obtain xs ys where "p = xs @ CHR ''/'' # ys" "CHR ''/'' \<notin> set ys"
    by (meson split_list_last)
  then show ?thesis by (simp add: os_path_basename_def rfind_last_occurrence nat_add_distrib)
next
  case False
  then show ?thesis by (simp add: os_path_basename_def rfind_absent)
qed


lemma splitext_set_fst: "set (fst (os_path_splitext p)) \<subseteq> set p"
  by (auto simp add: os_path_splitext_def Let_def dest: in_set_takeD)

lemma splitext_ext:
  assumes "snd (os_path_splitext p) \<noteq> []"
  shows "\<exists>e. snd (os_path_splitext p) = CHR ''.'' # e \<and> CHR ''.'' \<notin> set e"
proof -
  from assms have gt: "rfind p CHR ''.'' > rfind p CHR ''/''"
    and ext: "snd (os_path_splitext p) = drop (nat (rfind p CHR ''.'')) p"
    by (auto simp add: os_path_splitext_def Let_def split: if_splits)
  have "CHR ''.'' \<in> set p"
  proof (rule ccontr)
    assume "CHR ''.'' \<notin> set p"
    then have "rfind p CHR ''.'' = - 1" by (rule rfind_absent)
    with gt rfind_lower [of p "CHR ''/''"] show False by simp
  qed
  then obtain xs ys where p: "p = xs @ CHR ''.'' # ys" and ys: "CHR ''.'' \<notin> set ys"
    by (meson split_list_last)
  have "snd (os_path_splitext p) = CHR ''.'' # ys"
    unfolding ext by (simp add: p rfind_last_occurrence [OF ys])
  with ys show ?thesis by blast
qed

lemma str_nat_digits: "set (str_nat n) \<subseteq> set ''0123456789''"
proof (induction n rule: str_nat.induct)
  case (1 n)
  have d: "''0123456789'' ! k \<in> set ''0123456789''" if "k < 10" for k
    using that by (intro nth_mem) simp
  show ?case
  proof (cases "n < 10")
    case True
    with d [of n] show ?thesis by (subst str_nat.simps) simp
  next
    case False
    have "n mod 10 < 10" by simp
    from d [OF this] 1 [OF False] False show ?thesis
      by (subst str_nat.simps) simp
  qed
qed

lemma fmt_02d_digits: "set (fmt_02d n) \<subseteq> set ''0123456789''"
  using str_nat_digits [of n] by (auto simp add: fmt_02d_def Let_def)

lemma fmt_02d_no_underscore: "CHR ''_'' \<notin> set (fmt_02d n)"
  using fmt_02d_digits [of n] by auto

section \<open>The returned path\<close>


lemma save_restored_img_Some:
  assumes "save_restored_img E a b e (Some img) = (t, Inr u)"
  shows "t = [Imwrite img (restored_img_path a b e)]"
  using assms
  by (cases "imwrite E img (restored_img_path a b e)")
     (simp_all add: save_restored_img_def Let_def call_def call_val_def)





lemma endswith_append_nonempty: "ys \<noteq> [] \<Longrightarrow> endswith (xs @ ys) c = endswith ys c"
  by (cases ys rule: rev_cases) (simp_all add: endswith_def)

lemma join2_plain:
  assumes "a \<noteq> []" "\<not> endswith a CHR ''/''" "\<not> startswith b CHR ''/''"
  shows "join2 a b = a @ ''/'' @ b"
  using assms by (simp add: join2_def)





lemmas run_defs =
  run_main_def run_args_def Let_def strip_input_def endswith_def startswith_def img_list_def
  setup_bg_upsampler_def select_variant_def determine_model_path_def os_path_join_def
  join2_def process_image_def os_path_basename_def os_path_splitext_def rfind_def
  save_restored_img_def restored_img_path_def face_name_def save_face_name_def fmt_02d_def
  cpu_restorer_def

lemma run_main_portrait:
  "run_main portrait_env ''portrait.jpg'' ''output'' =
     ([Makedirs ''output'', Warn cpu_warning, NewGFPGANer cpu_restorer,
       LogDebug ''Processing portrait.jpg ...'', Imread ''portrait.jpg'',
       Enhance cpu_restorer (Some 0) False False True (1 / 2),
       Imwrite 1 ''output/cropped_faces/portrait_00.png'',
       Imwrite 2 ''output/restored_faces/portrait_00.png'',
       Imwrite 3 ''output/cmp/portrait_00.png'',
       Imwrite 4 ''output/restored_imgs/portrait.jpg'',
       LogDebug ''Results are in the [output] folder.''],
      Inr ''output/restored_imgs/portrait.jpg'')"
  by (simp add: run_defs portrait_env_def quiet_env_def)



lemma run_main_without_extension:
  "run_main plain_env ''portrait'' ''output'' =
     ([Makedirs ''output'', Warn cpu_warning, NewGFPGANer cpu_restorer,
       LogDebug ''Processing portrait ...'', Imread ''portrait'',
       Enhance cpu_restorer (Some 0) False False True (1 / 2),
       Imwrite 1 ''output/cropped_faces/portrait_00.png'',
       Imwrite 2 ''output/restored_faces/portrait_00.png'',
       Imwrite 3 ''output/cmp/portrait_00.png'',
       Imwrite 4 ''output/restored_imgs/portrait.'',
       LogDebug ''Results are in the [output] folder.''],
      Inr ''output/restored_imgs/portrait'')"
  by (simp add: run_defs plain_env_def portrait_env_def quiet_env_def)




section \<open>Artifact names\<close>

lemma save_face_name_eq:
  "save_face_name a b i = b @ ''_'' @ fmt_02d i @ suffix_part a @ ''.png''"
  by (simp add: save_face_name_def suffix_part_def split: option.splits)

lemma restored_img_path_eq: "restored_img_path a b e = full_artifact a b e"
  by (simp add: restored_img_path_def full_artifact_def suffix_part_def policy_extension_def
      Let_def split: option.splits)

lemma save_faces_written:
  assumes "save_faces E a b idx faces = (t, Inr u)"
  shows "written_paths t = concat (map (face_artifacts a b) [idx..<idx + length faces])"
  using assms
proof (induction faces arbitrary: idx t)
  case Nil
  then show ?case by (simp add: io_return_def)
next
  case (Cons f faces)
  obtain c rf where f: "f = (c, rf)" by (cases f)
  let ?p1 = "os_path_join (output a) [''cropped_faces'', face_name b idx]"
  let ?p2 = "os_path_join (output a) [''restored_faces'', save_face_name a b idx]"
  let ?p3 = "os_path_join (output a) [''cmp'', face_name b idx]"
  obtain t' r' where rest: "save_faces E a b (Suc idx) faces = (t', r')"
    by (cases "save_faces E a b (Suc idx) faces")
  from Cons.prems have w1: "imwrite E c ?p1 = None"
    unfolding f by (cases "imwrite E c ?p1") (simp_all add: Let_def)
  from Cons.prems have w2: "imwrite E rf ?p2 = None"
    unfolding f by (cases "imwrite E rf ?p2") (simp_all add: Let_def w1)
  from Cons.prems obtain m where cat: "concatenate E c rf = Inr m"
    unfolding f by (cases "concatenate E c rf") (simp_all add: Let_def w1 w2 io_raise_def)
  from Cons.prems have w3: "imwrite E m ?p3 = None"
    unfolding f by (cases "imwrite E m ?p3") (simp_all add: Let_def w1 w2 cat)
  from Cons.prems have t: "t = [Imwrite c ?p1, Imwrite rf ?p2, Imwrite m ?p3] @ t'"
    and r': "r' = Inr u"
    unfolding f by (simp_all add: Let_def w1 w2 cat w3 rest)
  from Cons.IH [of "Suc idx" t'] rest r'
  have "written_paths t' = concat (map (face_artifacts a b) [Suc idx..<Suc idx + length faces])"
    by simp
  moreover have "[idx..<idx + length (f # faces)] = idx # [Suc idx..<Suc idx + length faces]"
    by (simp add: upt_rec)
  moreover have "[?p1, ?p2, ?p3] = face_artifacts a b idx"
    by (simp add: face_artifacts_def face_name_def save_face_name_eq)
  ultimately show ?case by (simp add: t)
qed

lemma process_image_written:
  assumes "process_image E a r p = (t, Inr n)"
  shows "\<exists>cf rf ri.
           enhance E r (imread E p) (aligned a) (only_center_face a) True (weight a) =
             Inr (cf, rf, ri) \<and>
           written_paths t = job_artifacts a p (min (length cf) (length rf)) (ri \<noteq> None)"
proof -
  let ?b = "fst (os_path_splitext (os_path_basename p))"
  let ?e = "snd (os_path_splitext (os_path_basename p))"
  let ?enh = "enhance E r (imread E p) (aligned a) (only_center_face a) True (weight a)"
  from assms obtain cf rf ri where enh: "?enh = Inr (cf, rf, ri)"
    by (cases ?enh) (auto simp add: process_image_def Let_def split_def)
  obtain tf rf' where f: "save_faces E a ?b 0 (zip cf rf) = (tf, rf')"
    by (cases "save_faces E a ?b 0 (zip cf rf)")
  obtain ti ri' where i: "save_restored_img E a ?b ?e ri = (ti, ri')"
    by (cases "save_restored_img E a ?b ?e ri")
  from assms enh f i have ok: "rf' = Inr ()" "\<exists>u. ri' = Inr u"
    and t: "t = [LogDebug (''Processing '' @ os_path_basename p @ '' ...''), Imread p,
                 Enhance r (imread E p) (aligned a) (only_center_face a) True (weight a)]
                @ tf @ ti"
    by (cases rf'; cases ri'; simp add: process_image_def Let_def split_def)+
  from f ok have tf: "written_paths tf = concat (map (face_artifacts a ?b) [0..<length (zip cf rf)])"
    using save_faces_written [of E a ?b 0 "zip cf rf" tf "()"] by simp
  have ti: "written_paths ti = (if ri \<noteq> None then [full_artifact a ?b ?e] else [])"
  proof (cases ri)
    case None
    with i show ?thesis by (simp add: save_restored_img_def io_return_def)
  next
    case (Some img)
    with i ok save_restored_img_Some [of E a ?b ?e img ti] show ?thesis
      by (auto simp add: restored_img_path_eq)
  qed
  have "written_paths t = job_artifacts a p (min (length cf) (length rf)) (ri \<noteq> None)"
    by (simp add: t tf ti job_artifacts_def split_def Let_def)
  with enh show ?thesis by blast
qed


lemma first_sep_unique:
  assumes "c \<notin> set u1" "c \<notin> set u2" "u1 @ c # v1 = u2 @ c # v2"
  shows "u1 = u2 \<and> v1 = v2"
proof -
  have "takeWhile (\<lambda>x. x \<noteq> c) (u1 @ c # v1) = u1" "takeWhile (\<lambda>x. x \<noteq> c) (u2 @ c # v2) = u2"
    using assms(1,2) by (auto simp add: takeWhile_tail)
  with assms(3) have "u1 = u2" by simp
  with assms(3) show ?thesis by simp
qed

lemma last_sep_unique:
  assumes "c \<notin> set y1" "c \<notin> set y2" "x1 @ c # y1 = x2 @ c # y2"
  shows "x1 = x2 \<and> y1 = y2"
proof -
  from assms(3) have "rev (x1 @ c # y1) = rev (x2 @ c # y2)" by simp
  then have "rev y1 @ c # rev x1 = rev y2 @ c # rev x2" by simp
  moreover from assms have "c \<notin> set (rev y1)" "c \<notin> set (rev y2)" by simp_all
  ultimately have "rev y1 = rev y2 \<and> rev x1 = rev x2"
    by (rule first_sep_unique [rotated 2])
  then show ?thesis by simp
qed

lemma face_name_inj:
  assumes "b1 @ ''_'' @ fmt_02d i @ rest = b2 @ ''_'' @ fmt_02d j @ rest"
  shows "b1 = b2"
proof -
  from assms have "(b1 @ CHR ''_'' # fmt_02d i) @ rest = (b2 @ CHR ''_'' # fmt_02d j) @ rest"
    by simp
  then have "b1 @ CHR ''_'' # fmt_02d i = b2 @ CHR ''_'' # fmt_02d j"
    by (simp only: append_same_eq)
  with last_sep_unique [OF fmt_02d_no_underscore fmt_02d_no_underscore] show ?thesis
    by blast
qed

lemma splitext_ext_no_dot: "CHR ''.'' \<notin> set (drop 1 (snd (os_path_splitext n)))"
proof (cases "snd (os_path_splitext n) = []")
  case True
  then show ?thesis by simp
next
  case False
  from splitext_ext [OF this] show ?thesis by auto
qed

lemma full_name_inj:
  assumes dots: "CHR ''.'' \<notin> set (drop 1 e1)" "CHR ''.'' \<notin> set (drop 1 e2)"
    and eq: "b1 @ suffix_part a @ ''.'' @ policy_extension a e1 =
             b2 @ suffix_part a @ ''.'' @ policy_extension a e2"
  shows "b1 = b2"
proof (cases "ext a = ''auto''")
  case True
  with eq have "(b1 @ suffix_part a) @ CHR ''.'' # drop 1 e1 =
      (b2 @ suffix_part a) @ CHR ''.'' # drop 1 e2"
    by (simp add: policy_extension_def)
  from last_sep_unique [OF dots this] show ?thesis by simp
next
  case False
  with eq have "b1 @ (suffix_part a @ ''.'' @ ext a) = b2 @ (suffix_part a @ ''.'' @ ext a)"
    by (simp add: policy_extension_def)
  then show ?thesis by (simp only: append_same_eq)
qed

lemma dir_prefix_join:
  assumes "\<not> startswith name CHR ''/''" "cat \<noteq> []" "\<not> startswith cat CHR ''/''"
    "\<not> endswith cat CHR ''/''"
  shows "os_path_join out [cat, name] = dir_prefix out @ cat @ ''/'' @ name"
proof -
  have d: "join2 out cat = dir_prefix out @ cat"
    using assms(3) by (simp add: join2_def dir_prefix_def)
  have "join2 (dir_prefix out @ cat) name = (dir_prefix out @ cat) @ ''/'' @ name"
    using assms by (intro join2_plain) (simp_all add: endswith_append_nonempty)
  with d show ?thesis by (simp add: os_path_join_def)
qed

lemma startswith_name:
  "CHR ''/'' \<notin> set b \<Longrightarrow> c \<noteq> CHR ''/'' \<Longrightarrow> \<not> startswith (b @ c # rest) CHR ''/''"
  by (cases b) (auto simp add: startswith_def)

lemma category_join:
  assumes "\<not> startswith name CHR ''/''"
  shows "os_path_join out [''cropped_faces'', name] = dir_prefix out @ ''cropped_faces/'' @ name"
    and "os_path_join out [''restored_faces'', name] = dir_prefix out @ ''restored_faces/'' @ name"
    and "os_path_join out [''cmp'', name] = dir_prefix out @ ''cmp/'' @ name"
    and "os_path_join out [''restored_imgs'', name] = dir_prefix out @ ''restored_imgs/'' @ name"
  using assms by (simp_all add: dir_prefix_join startswith_def endswith_def)

lemma face_artifacts_eq:
  assumes "CHR ''/'' \<notin> set b"
  shows "face_artifacts a b i =
     [dir_prefix (output a) @ ''cropped_faces/'' @ b @ ''_'' @ fmt_02d i @ ''.png'',
      dir_prefix (output a) @ ''restored_faces/'' @ b @ ''_'' @ fmt_02d i @ suffix_part a @ ''.png'',
      dir_prefix (output a) @ ''cmp/'' @ b @ ''_'' @ fmt_02d i @ ''.png'']"
proof -
  have n: "\<not> startswith (b @ ''_'' @ rest) CHR ''/''" for rest
    using startswith_name [OF assms, of "CHR ''_''" rest] by simp
  show ?thesis
    unfolding face_artifacts_def category_join [OF n] by simp
qed

lemma full_artifact_eq:
  assumes "CHR ''/'' \<notin> set b"
  shows "full_artifact a b e =
     dir_prefix (output a) @ ''restored_imgs/'' @ b @ suffix_part a @ ''.'' @ policy_extension a e"
proof -
  have "\<not> startswith (b @ suffix_part a @ ''.'' @ policy_extension a e) CHR ''/''"
  proof (cases "suffix a")
    case None
    with startswith_name [OF assms, of "CHR ''.''" "policy_extension a e"] show ?thesis
      by (simp add: suffix_part_def)
  next
    case (Some s)
    with startswith_name [OF assms, of "CHR ''_''" "s @ ''.'' @ policy_extension a e"]
    show ?thesis by (simp add: suffix_part_def)
  qed
  then show ?thesis
    unfolding full_artifact_def by (rule category_join)
qed

lemma splitext_basename_no_sep:
  "CHR ''/'' \<notin> set (fst (os_path_splitext (os_path_basename p)))"
  using splitext_set_fst [of "os_path_basename p"] basename_no_sep [of p] by blast

lemma job_artifacts_cases:
  assumes "x \<in> set (job_artifacts a p n full)"
  shows "(\<exists>i. x \<in> set (face_artifacts a (fst (os_path_splitext (os_path_basename p))) i)) \<or>
         x = full_artifact a (fst (os_path_splitext (os_path_basename p)))
               (snd (os_path_splitext (os_path_basename p)))"
  using assms by (auto simp add: job_artifacts_def Let_def split_def split: if_splits)

lemma job_artifacts_disjoint:
  assumes ne: "fst (os_path_splitext (os_path_basename p1)) \<noteq>
               fst (os_path_splitext (os_path_basename p2))"
  shows "set (job_artifacts a p1 n1 f1) \<inter> set (job_artifacts a p2 n2 f2) = {}"
proof -
  let ?b1 = "fst (os_path_splitext (os_path_basename p1))"
  let ?b2 = "fst (os_path_splitext (os_path_basename p2))"
  let ?e1 = "snd (os_path_splitext (os_path_basename p1))"
  let ?e2 = "snd (os_path_splitext (os_path_basename p2))"
  note fa = face_artifacts_eq [OF splitext_basename_no_sep]
  note fu = full_artifact_eq [OF splitext_basename_no_sep]
  have ff: "x \<in> set (face_artifacts a ?b1 i) \<Longrightarrow> x \<in> set (face_artifacts a ?b2 j) \<Longrightarrow> False"
    for x i j
    using ne face_name_inj [of ?b1 i "''.png''" ?b2 j]
      face_name_inj [of ?b1 i "suffix_part a @ ''.png''" ?b2 j]
    by (auto simp add: fa)
  have f1: "x \<in> set (face_artifacts a ?b1 i) \<Longrightarrow> x = full_artifact a ?b2 ?e2 \<Longrightarrow> False"
    for x i
    by (auto simp add: fa fu)
  have f2: "x \<in> set (face_artifacts a ?b2 i) \<Longrightarrow> x = full_artifact a ?b1 ?e1 \<Longrightarrow> False"
    for x i
    by (auto simp add: fa fu)
  have uu: False if "full_artifact a ?b1 ?e1 = full_artifact a ?b2 ?e2"
  proof -
    from that have "?b1 @ suffix_part a @ ''.'' @ policy_extension a ?e1 =
        ?b2 @ suffix_part a @ ''.'' @ policy_extension a ?e2"
      by (simp add: fu)
    from full_name_inj [OF splitext_ext_no_dot splitext_ext_no_dot this] ne
    show False by simp
  qed
  show ?thesis
  proof (rule ccontr)
    assume "set (job_artifacts a p1 n1 f1) \<inter> set (job_artifacts a p2 n2 f2) \<noteq> {}"
    then obtain x where x1: "x \<in> set (job_artifacts a p1 n1 f1)"
      and x2: "x \<in> set (job_artifacts a p2 n2 f2)" by blast
    from job_artifacts_cases [OF x1] job_artifacts_cases [OF x2] ff f1 f2 uu
    show False by blast
  qed
qed

lemma save_faces_writes:
  assumes "save_faces E a b idx faces = (t, Inr u)"
  shows "writes t =
           concat (map (\<lambda>(i, c, r). face_writes E a b i c r) (List.enumerate idx faces)) \<and>
         (\<forall>f \<in> set faces. \<exists>m. concatenate E (fst f) (snd f) = Inr m)"
  using assms
proof (induction faces arbitrary: idx t)
  case Nil
  then show ?case by (simp add: io_return_def)
next
  case (Cons f faces)
  obtain c rf where f: "f = (c, rf)" by (cases f)
  let ?p1 = "os_path_join (output a) [''cropped_faces'', face_name b idx]"
  let ?p2 = "os_path_join (output a) [''restored_faces'', save_face_name a b idx]"
  let ?p3 = "os_path_join (output a) [''cmp'', face_name b idx]"
  obtain t' r' where rest: "save_faces E a b (Suc idx) faces = (t', r')"
    by (cases "save_faces E a b (Suc idx) faces")
  from Cons.prems have w1: "imwrite E c ?p1 = None"
    unfolding f by (cases "imwrite E c ?p1") (simp_all add: Let_def)
  from Cons.prems have w2: "imwrite E rf ?p2 = None"
    unfolding f by (cases "imwrite E rf ?p2") (simp_all add: Let_def w1)
  from Cons.prems obtain m where cat: "concatenate E c rf = Inr m"
    unfolding f by (cases "concatenate E c rf") (simp_all add: Let_def w1 w2 io_raise_def)
  from Cons.prems have w3: "imwrite E m ?p3 = None"
    unfolding f by (cases "imwrite E m ?p3") (simp_all add: Let_def w1 w2 cat)
  from Cons.prems have t: "t = [Imwrite c ?p1, Imwrite rf ?p2, Imwrite m ?p3] @ t'"
    and r': "r' = Inr u"
    unfolding f by (simp_all add: Let_def w1 w2 cat w3 rest)
  from Cons.IH [of "Suc idx" t'] rest r'
  have ih: "writes t' =
      concat (map (\<lambda>(i, c, r). face_writes E a b i c r) (List.enumerate (Suc idx) faces))"
    and ok: "\<forall>f \<in> set faces. \<exists>m. concatenate E (fst f) (snd f) = Inr m"
    by simp_all
  have "[(c, ?p1), (rf, ?p2), (m, ?p3)] = face_writes E a b idx c rf"
    by (simp add: face_writes_def face_name_def save_face_name_eq cat)
  with ih have "writes t =
      concat (map (\<lambda>(i, c, r). face_writes E a b i c r) (List.enumerate idx (f # faces)))"
    by (simp add: t f)
  moreover from ok cat have "\<forall>f \<in> set (f # faces). \<exists>m. concatenate E (fst f) (snd f) = Inr m"
    by (simp add: f)
  ultimately show ?case by blast
qed

lemma process_image_writes:
  assumes "process_image E a r p = (t, Inr n)"
  shows "\<exists>cf rf ri.
           enhance E r (imread E p) (aligned a) (only_center_face a) True (weight a) =
             Inr (cf, rf, ri) \<and>
           writes t = job_writes E a p cf rf ri \<and>
           (\<forall>f \<in> set (zip cf rf). \<exists>m. concatenate E (fst f) (snd f) = Inr m) \<and>
           written_paths t = job_artifacts a p (min (length cf) (length rf)) (ri \<noteq> None)"
proof -
  let ?b = "fst (os_path_splitext (os_path_basename p))"
  let ?e = "snd (os_path_splitext (os_path_basename p))"
  let ?enh = "enhance E r (imread E p) (aligned a) (only_center_face a) True (weight a)"
  from process_image_written [OF assms] obtain cf rf ri where enh: "?enh = Inr (cf, rf, ri)"
    and paths: "written_paths t = job_artifacts a p (min (length cf) (length rf)) (ri \<noteq> None)"
    by blast
  obtain tf rf' where f: "save_faces E a ?b 0 (zip cf rf) = (tf, rf')"
    by (cases "save_faces E a ?b 0 (zip cf rf)")
  obtain ti ri' where i: "save_restored_img E a ?b ?e ri = (ti, ri')"
    by (cases "save_restored_img E a ?b ?e ri")
  from assms enh f i have ok: "rf' = Inr ()" "\<exists>u. ri' = Inr u"
    and t: "t = [LogDebug (''Processing '' @ os_path_basename p @ '' ...''), Imread p,
                 Enhance r (imread E p) (aligned a) (only_center_face a) True (weight a)]
                @ tf @ ti"
    by (cases rf'; cases ri'; simp add: process_image_def Let_def split_def)+
  from save_faces_writes [of E a ?b 0 "zip cf rf" tf "()"] f ok
  have tf: "writes tf =
      concat (map (\<lambda>(i, c, r). face_writes E a ?b i c r) (List.enumerate 0 (zip cf rf)))"
    and cat: "\<forall>f \<in> set (zip cf rf). \<exists>m. concatenate E (fst f) (snd f) = Inr m"
    by simp_all
  have ti: "writes ti = (case ri of None \<Rightarrow> [] | Some img \<Rightarrow> [(img, full_artifact a ?b ?e)])"
  proof (cases ri)
    case None
    with i show ?thesis by (simp add: save_restored_img_def io_return_def)
  next
    case (Some img)
    with i ok save_restored_img_Some [of E a ?b ?e img ti] show ?thesis
      by (auto simp add: restored_img_path_eq)
  qed
  have "writes t = job_writes E a p cf rf ri"
    by (simp add: t tf ti job_writes_def split_def Let_def)
  with enh cat paths show ?thesis by blast
qed


lemma run_args_suffix:
  "written_paths
     (fst (run_args portrait_env ((main_args ''portrait.jpg'' ''output'')\<lparr>suffix := Some ''v2''\<rparr>))) =
     [''output/cropped_faces/portrait_00.png'', ''output/restored_faces/portrait_00_v2.png'',
      ''output/cmp/portrait_00.png'', ''output/restored_imgs/portrait_v2.jpg'']"
  by (simp add: run_defs main_args_def portrait_env_def quiet_env_def)

text \<open>
  Claim C2, as stated, fails: the face-level artifacts do not follow the extension
  policy. Under \<^verbatim>\<open>auto\<close> the source extension of \<^verbatim>\<open>portrait.jpg\<close> is \<^verbatim>\<open>jpg\<close>, and the
  claimed name \<^verbatim>\<open>portrait_00.jpg\<close> is never written; lines 128 to 139 write \<^verbatim>\<open>.png\<close>.
  Nor do they all carry the suffix: with the suffix \<^verbatim>\<open>v2\<close> in the dictionary, only the
  restored face and the full image are named with it.
\<close>

theorem artifact_names_counterexample:
  "os_path_splitext (os_path_basename ''portrait.jpg'') = (''portrait'', ''.jpg'') \<and>
   spec_face_name (main_args ''portrait.jpg'' ''output'') ''portrait'' ''.jpg'' 0 =
     ''portrait_00.jpg'' \<and>
   written_paths (fst (run_main portrait_env ''portrait.jpg'' ''output'')) =
     [''output/cropped_faces/portrait_00.png'', ''output/restored_faces/portrait_00.png'',
      ''output/cmp/portrait_00.png'', ''output/restored_imgs/portrait.jpg''] \<and>
   os_path_join ''output''
     [''cropped_faces'',
      spec_face_name (main_args ''portrait.jpg'' ''output'') ''portrait'' ''.jpg'' 0]
     \<notin> set (written_paths (fst (run_main portrait_env ''portrait.jpg'' ''output''))) \<and>
   spec_face_name ((main_args ''portrait.jpg'' ''output'')\<lparr>suffix := Some ''v2''\<rparr>)
     ''portrait'' ''.jpg'' 0 = ''portrait_00_v2.jpg'' \<and>
   written_paths
     (fst (run_args portrait_env ((main_args ''portrait.jpg'' ''output'')\<lparr>suffix := Some ''v2''\<rparr>))) =
     [''output/cropped_faces/portrait_00.png'', ''output/restored_faces/portrait_00_v2.png'',
      ''output/cmp/portrait_00.png'', ''output/restored_imgs/portrait_v2.jpg'']"
  unfolding run_args_suffix
  by (simp add: run_main_portrait basename_portrait splitext_portrait spec_face_name_def
      suffix_part_def policy_extension_def main_args_def fmt_02d_def os_path_join_def join2_def
      startswith_def endswith_def)

text \<open>
  Claim C2, amended. A job that completes writes, for every face pair the engine
  returned, numbered \<open>i\<close> from 0 and in this order, the cropped face to
  \<^verbatim>\<open>cropped_faces/<basename>_<i:02d>.png\<close>, the restored face to
  \<^verbatim>\<open>restored_faces/<basename>_<i:02d>[_<suffix>].png\<close> and the concatenation of the two
  to \<^verbatim>\<open>cmp/<basename>_<i:02d>.png\<close>, and then, if the engine returned a full image, that
  image to \<^verbatim>\<open>restored_imgs/<basename>[_<suffix>].<ext>\<close>, where \<^verbatim>\<open>ext\<close> is the source
  extension under \<^verbatim>\<open>auto\<close> and the override otherwise; all under the output directory,
  and nothing else. The names are a function of the arguments, the image path, the number
  of faces and the presence of a full image, and within one run the artifacts of two jobs
  with distinct basenames are disjoint.
\<close>

theorem artifact_names:
  "(\<forall>t n. process_image E a r p = (t, Inr n) \<longrightarrow>
      (\<exists>cf rf ri.
         enhance E r (imread E p) (aligned a) (only_center_face a) True (weight a) =
           Inr (cf, rf, ri) \<and>
         writes t = job_writes E a p cf rf ri \<and>
         (\<forall>f \<in> set (zip cf rf). \<exists>m. concatenate E (fst f) (snd f) = Inr m) \<and>
         written_paths t = job_artifacts a p (min (length cf) (length rf)) (ri \<noteq> None))) \<and>
   (fst (os_path_splitext (os_path_basename p1)) \<noteq> fst (os_path_splitext (os_path_basename p2))
      \<longrightarrow> set (job_artifacts a p1 n1 f1) \<inter> set (job_artifacts a p2 n2 f2) = {})"
  using process_image_writes [of E a r p] job_artifacts_disjoint [of p1 p2 a n1 f1 n2 f2]
  by blast

theorem artifact_names_witness:
  "process_image portrait_env (main_args ''portrait.jpg'' ''output'') cpu_restorer ''portrait.jpg'' =
     ([LogDebug ''Processing portrait.jpg ...'', Imread ''portrait.jpg'',
       Enhance cpu_restorer (Some 0) False False True (1 / 2),
       Imwrite 1 ''output/cropped_faces/portrait_00.png'',
       Imwrite 2 ''output/restored_faces/portrait_00.png'',
       Imwrite 3 ''output/cmp/portrait_00.png'',
       Imwrite 4 ''output/restored_imgs/portrait.jpg''], Inr ''portrait.jpg'') \<and>
   enhance portrait_env cpu_restorer (imread portrait_env ''portrait.jpg'') False False True
     (1 / 2) = Inr ([1], [2], Some 4) \<and>
   concatenate portrait_env 1 2 = Inr 3 \<and>
   job_writes portrait_env (main_args ''portrait.jpg'' ''output'') ''portrait.jpg'' [1] [2] (Some 4) =
     [(1, ''output/cropped_faces/portrait_00.png''), (2, ''output/restored_faces/portrait_00.png''),
      (3, ''output/cmp/portrait_00.png''), (4, ''output/restored_imgs/portrait.jpg'')] \<and>
   job_artifacts (main_args ''portrait.jpg'' ''output'') ''portrait.jpg'' 1 True =
     [''output/cropped_faces/portrait_00.png'', ''output/restored_faces/portrait_00.png'',
      ''output/cmp/portrait_00.png'', ''output/restored_imgs/portrait.jpg''] \<and>
   fst (os_path_splitext (os_path_basename ''in/a.jpg'')) = ''a'' \<and>
   fst (os_path_splitext (os_path_basename ''in/b.jpg'')) = ''b'' \<and>
   set (job_artifacts (main_args ''portrait.jpg'' ''output'') ''in/a.jpg'' 2 True) \<inter>
   set (job_artifacts (main_args ''portrait.jpg'' ''output'') ''in/b.jpg'' 1 True) = {}"
proof -
  let ?a = "main_args ''portrait.jpg'' ''output''"
  let ?t = "[LogDebug ''Processing portrait.jpg ...'', Imread ''portrait.jpg'',
       Enhance cpu_restorer (Some 0) False False True (1 / 2),
       Imwrite 1 ''output/cropped_faces/portrait_00.png'',
       Imwrite 2 ''output/restored_faces/portrait_00.png'',
       Imwrite 3 ''output/cmp/portrait_00.png'',
       Imwrite (4::nat) ''output/restored_imgs/portrait.jpg'']"
  have job: "process_image portrait_env ?a cpu_restorer ''portrait.jpg'' = (?t, Inr ''portrait.jpg'')"
    by (simp add: run_defs main_args_def portrait_env_def quiet_env_def)
  have enh: "enhance portrait_env cpu_restorer (imread portrait_env ''portrait.jpg'')
      (aligned ?a) (only_center_face ?a) True (weight ?a) = Inr ([1], [2], Some 4)"
    by (simp add: portrait_env_def quiet_env_def)
  have enh': "enhance portrait_env cpu_restorer (imread portrait_env ''portrait.jpg'') False False
      True (1 / 2) = Inr ([1], [2], Some 4)"
    by (simp add: portrait_env_def quiet_env_def)
  have cat: "concatenate portrait_env 1 2 = Inr 3"
    by (simp add: portrait_env_def quiet_env_def)
  have a: "fst (os_path_splitext (os_path_basename ''in/a.jpg'')) = ''a''"
    and b: "fst (os_path_splitext (os_path_basename ''in/b.jpg'')) = ''b''"
    by (simp_all add: os_path_splitext_def os_path_basename_def rfind_def)
  note th = artifact_names [of portrait_env ?a cpu_restorer "''portrait.jpg''"
      "''in/a.jpg''" "''in/b.jpg''" 2 True 1 True]
  from th [THEN conjunct1, rule_format, OF job] enh
  have "writes ?t = job_writes portrait_env ?a ''portrait.jpg'' [1] [2] (Some 4) \<and>
      written_paths ?t = job_artifacts ?a ''portrait.jpg'' 1 True"
    by simp
  then have wr: "job_writes portrait_env ?a ''portrait.jpg'' [1] [2] (Some 4) =
     [(1, ''output/cropped_faces/portrait_00.png''), (2, ''output/restored_faces/portrait_00.png''),
      (3, ''output/cmp/portrait_00.png''), (4, ''output/restored_imgs/portrait.jpg'')]"
    and arts: "job_artifacts ?a ''portrait.jpg'' 1 True =
     [''output/cropped_faces/portrait_00.png'', ''output/restored_faces/portrait_00.png'',
      ''output/cmp/portrait_00.png'', ''output/restored_imgs/portrait.jpg'']"
    by simp_all
  from th [THEN conjunct2] a b
  have "set (job_artifacts ?a ''in/a.jpg'' 2 True) \<inter> set (job_artifacts ?a ''in/b.jpg'' 1 True) = {}"
    by simp
  with job enh' cat wr arts a b show ?thesis by blast
qed

end
